theory Spec2Isabelle
  imports Complex_Main
begin

text \<open>
  The function \<open>findPortByPid\<close> of the package find-port-by-pid (\<open>src/index.ts\<close>):
  the ports a process has open, found through PowerShell on Windows, through lsof on
  macOS and through \<open>/proc\<close> on Linux. The program is written here as functions of a
  host that answers its calls; a call returns its result, or the error it throws, and the
  calls it made to the host.
\<close>

section \<open>Strings and numbers of the host language\<close>

text \<open>
  A JavaScript string is a sequence of UTF-16 code units. A code unit is a number below
  \<open>2 ^ 16\<close>; the program only compares code units with constants, so they are kept as
  natural numbers, and every statement below holds for all of them. Literals of this
  development are ASCII and are written through \<open>str\<close>.
\<close>

type_synonym code_unit = nat
type_synonym jsstring = "code_unit list"

definition str :: "string \<Rightarrow> jsstring" where
  "str s = map of_char s"

text \<open>
  The class \<open>\s\<close> of regular expressions, which is also what \<open>trim\<close> and
  \<open>parseInt\<close> strip: WhiteSpace and LineTerminator of ECMAScript.
\<close>

definition isWhiteSpace :: "code_unit \<Rightarrow> bool" where
  "isWhiteSpace c =
     (c = 0x09 \<or> c = 0x0A \<or> c = 0x0B \<or> c = 0x0C \<or> c = 0x0D \<or> c = 0x20 \<or> c = 0xA0
      \<or> c = 0x1680 \<or> (0x2000 \<le> c \<and> c \<le> 0x200A) \<or> c = 0x2028 \<or> c = 0x2029
      \<or> c = 0x202F \<or> c = 0x205F \<or> c = 0x3000 \<or> c = 0xFEFF)"

text \<open>The class \<open>\d\<close>: the ASCII digits.\<close>

definition isDigit :: "code_unit \<Rightarrow> bool" where
  "isDigit c = (0x30 \<le> c \<and> c \<le> 0x39)"

definition colon :: code_unit where
  "colon = 0x3A"

definition newline :: code_unit where
  "newline = 0x0A"

text \<open>\<open>String.prototype.trim\<close>.\<close>

definition trim :: "jsstring \<Rightarrow> jsstring" where
  "trim s = rev (dropWhile isWhiteSpace (rev (dropWhile isWhiteSpace s)))"

text \<open>
  \<open>String.prototype.split\<close> with a separator of one code unit (\<open>'\n'\<close>, \<open>':'\<close>):
  the pieces between the separators, empty pieces kept; the empty string gives one
  empty piece.
\<close>

fun split :: "code_unit \<Rightarrow> jsstring \<Rightarrow> jsstring list" where
  "split sep [] = [[]]"
| "split sep (c # cs) =
     (if c = sep then [] # split sep cs
      else (case split sep cs of
              [] \<Rightarrow> [[c]]
            | piece # pieces \<Rightarrow> (c # piece) # pieces))"

text \<open>
  \<open>String.prototype.split\<close> with the separator \<open>/\s+/\<close>: the string is cut at every
  maximal run of white space; a run at the start or at the end leaves an empty piece
  there.
\<close>

function splitWs :: "jsstring \<Rightarrow> jsstring list" where
  "splitWs s =
     (let piece = takeWhile (\<lambda>c. \<not> isWhiteSpace c) s;
          rest = dropWhile (\<lambda>c. \<not> isWhiteSpace c) s
      in if rest = [] then [piece] else piece # splitWs (dropWhile isWhiteSpace rest))"
  by pat_completeness auto
termination
proof (relation "measure length")
  fix s piece rest
  assume r: "rest = dropWhile (\<lambda>c. \<not> isWhiteSpace c) s" and ne: "rest \<noteq> []"
  have "length (dropWhile isWhiteSpace rest) < length rest"
  proof (cases rest)
    case Nil
    with ne show ?thesis by simp
  next
    case (Cons c cs)
    have "isWhiteSpace (hd rest)"
      using hd_dropWhile [of "\<lambda>c. \<not> isWhiteSpace c" s] ne r by simp
    with Cons have "dropWhile isWhiteSpace rest = dropWhile isWhiteSpace cs"
      by simp
    moreover have "length (dropWhile isWhiteSpace cs) \<le> length cs"
      by (rule length_dropWhile_le)
    ultimately show ?thesis
      using Cons by simp
  qed
  also have "length rest \<le> length s"
    using r by (simp add: length_dropWhile_le)
  finally show "(dropWhile isWhiteSpace rest, s) \<in> measure length"
    by simp
qed simp

declare splitWs.simps [simp del]

text \<open>\<open>Array.prototype.pop\<close>, for its value: the last element, undefined on \<open>[]\<close>.\<close>

definition pop :: "'a list \<Rightarrow> 'a option" where
  "pop xs = (case rev xs of [] \<Rightarrow> None | x # _ \<Rightarrow> Some x)"

text \<open>
  A \<open>Set\<close> of strings keeps its elements in insertion order; \<open>add\<close> leaves the set
  alone when the element is there.
\<close>

definition setAdd :: "'a \<Rightarrow> 'a list \<Rightarrow> 'a list" where
  "setAdd x xs = (if x \<in> set xs then xs else xs @ [x])"

definition newSet :: "'a list \<Rightarrow> 'a list" where
  "newSet xs = foldl (\<lambda>s x. setAdd x s) [] xs"


subsection \<open>Numbers\<close>

text \<open>
  A Number is a double. The finite ones are modelled by their exact rational value;
  \<open>Finite q\<close> stands for the double nearest to \<open>q\<close>, which is \<open>q\<close> itself for
  every integer below \<open>2 ^ 53\<close> in absolute value.
\<close>

datatype number = NaN | PosInfinity | NegInfinity | Finite rat

text \<open>\<open>Number.isInteger\<close>.\<close>

definition isInteger :: "number \<Rightarrow> bool" where
  "isInteger x = (case x of Finite q \<Rightarrow> q = of_int \<lfloor>q\<rfloor> | _ \<Rightarrow> False)"

text \<open>The comparison \<open>x <= 0\<close>, false on \<open>NaN\<close>.\<close>

definition leZero :: "number \<Rightarrow> bool" where
  "leZero x =
     (case x of NaN \<Rightarrow> False | PosInfinity \<Rightarrow> False | NegInfinity \<Rightarrow> True
      | Finite q \<Rightarrow> q \<le> 0)"

text \<open>The decimal digits of a natural number, and of an integer with its sign.\<close>

definition digitChar :: "nat \<Rightarrow> code_unit" where
  "digitChar d = 0x30 + d"

fun digits10 :: "nat \<Rightarrow> jsstring" where
  "digits10 n = (if n < 10 then [digitChar n] else digits10 (n div 10) @ [digitChar (n mod 10)])"

declare digits10.simps [simp del]

definition intToString :: "int \<Rightarrow> jsstring" where
  "intToString i = (if i < 0 then 0x2D # digits10 (nat (- i)) else digits10 (nat i))"

text \<open>
  \<open>Number.prototype.toString\<close> (also what a template literal applies). An integer
  below \<open>2 ^ 53\<close> in absolute value is a double exactly and is printed in decimal
  digits. Beyond that, and for a fraction, the text depends on the rounding to a double
  and on the shortest digits that read back as it: floating point, which this development
  takes from the host as \<open>inexactToString\<close> and never looks into.
\<close>

definition numberToString :: "(rat \<Rightarrow> jsstring) \<Rightarrow> number \<Rightarrow> jsstring" where
  "numberToString inexact x =
     (case x of
        NaN \<Rightarrow> str ''NaN''
      | PosInfinity \<Rightarrow> str ''Infinity''
      | NegInfinity \<Rightarrow> str ''-Infinity''
      | Finite q \<Rightarrow>
          if q = of_int \<lfloor>q\<rfloor> \<and> \<bar>q\<bar> < 2 ^ 53 then intToString \<lfloor>q\<rfloor> else inexact q)"

text \<open>The digits of radix 16, \<open>0-9\<close>, \<open>a-f\<close> and \<open>A-F\<close>, and their values.\<close>

definition isHexDigit :: "code_unit \<Rightarrow> bool" where
  "isHexDigit c = ((0x30 \<le> c \<and> c \<le> 0x39) \<or> (0x61 \<le> c \<and> c \<le> 0x66) \<or> (0x41 \<le> c \<and> c \<le> 0x46))"

definition hexDigitValue :: "code_unit \<Rightarrow> nat" where
  "hexDigitValue c =
     (if 0x30 \<le> c \<and> c \<le> 0x39 then c - 0x30
      else if 0x61 \<le> c \<and> c \<le> 0x66 then c - 0x61 + 10
      else if 0x41 \<le> c \<and> c \<le> 0x46 then c - 0x41 + 10
      else 0)"

text \<open>The value of a run of hexadecimal digits, from the left.\<close>

definition hexValue :: "jsstring \<Rightarrow> nat" where
  "hexValue Z = foldl (\<lambda>a c. 16 * a + hexDigitValue c) 0 Z"

text \<open>
  \<open>parseInt(string, 16)\<close>: leading white space is dropped, then a sign, then a prefix
  \<open>0x\<close> or \<open>0X\<close>; the longest run of hexadecimal digits that follows is the value, and
  where there is none the result is \<open>NaN\<close>. Whatever comes after the digits is ignored.
\<close>

definition parseInt16 :: "jsstring \<Rightarrow> number" where
  "parseInt16 string =
     (let S = dropWhile isWhiteSpace string;
          sign = (if take 1 S = str ''-'' then - 1 else 1 :: int);
          S1 = (if take 1 S = str ''+'' \<or> take 1 S = str ''-'' then drop 1 S else S);
          S2 = (if take 2 S1 = str ''0x'' \<or> take 2 S1 = str ''0X'' then drop 2 S1 else S1);
          Z = takeWhile isHexDigit S2
      in if Z = [] then NaN else Finite (of_int (sign * int (hexValue Z))))"

text \<open>\<open>String.prototype.indexOf\<close> of one code unit; \<open>None\<close> stands for \<open>-1\<close>.\<close>

definition indexOf :: "code_unit \<Rightarrow> jsstring \<Rightarrow> nat option" where
  "indexOf c s = (if c \<in> set s then Some (length (takeWhile (\<lambda>x. x \<noteq> c) s)) else None)"

section \<open>The host\<close>

text \<open>
  What \<open>exec\<close> hands to its callback: \<open>error\<close> (its message, when it is not null),
  \<open>stdout\<close> and \<open>stderr\<close>.
\<close>

record exec_result =
  exec_error :: "jsstring option"
  stdout :: jsstring
  stderr :: jsstring

text \<open>
  The facilities the program calls, at the moment of the call: the platform identifier,
  the process spawner, and the three file-system reads, each of which either gives a
  value or throws an error with a message (\<open>Inl\<close>).
\<close>

record host =
  inexactToString :: "rat \<Rightarrow> jsstring"
  platform :: jsstring
  exec :: "jsstring \<Rightarrow> exec_result"
  readdir :: "jsstring \<Rightarrow> jsstring + jsstring list"
  readlink :: "jsstring \<Rightarrow> jsstring + jsstring"
  readFile :: "jsstring \<Rightarrow> jsstring + jsstring"

text \<open>The calls made to the host, in order.\<close>

datatype io = Platform | Exec jsstring | Readdir jsstring | Readlink jsstring | ReadFile jsstring

text \<open>A thrown \<open>Error\<close>, with its message.\<close>

datatype error = Error jsstring


section \<open>The program\<close>

subsection \<open>Linux: the sockets of a process\<close>

text \<open>
  \<open>link.match(/^socket:\[(\d+)\]$/)\<close>: the group, when the whole link is
  \<open>socket:[\<close>, one or more digits, \<open>]\<close>.
\<close>

definition socketMatch :: "jsstring \<Rightarrow> jsstring option" where
  "socketMatch link =
     (if take 8 link = str ''socket:['' then
        (let digits = takeWhile isDigit (drop 8 link);
             rest = dropWhile isDigit (drop 8 link)
         in if digits \<noteq> [] \<and> rest = str '']'' then Some digits else None)
      else None)"

text \<open>
  The loop of \<open>getSocketInodesForPid\<close> over the directory entries. A \<open>readlink\<close>
  that throws is caught inside the loop and the entry is passed over.
\<close>

fun collectInodes :: "host \<Rightarrow> jsstring \<Rightarrow> jsstring list \<Rightarrow> jsstring list \<Rightarrow> jsstring list" where
  "collectInodes h fdDir [] inodeSet = inodeSet"
| "collectInodes h fdDir (file # files) inodeSet =
     collectInodes h fdDir files
       (case readlink h (fdDir @ str ''/'' @ file) of
          Inl err \<Rightarrow> inodeSet
        | Inr link \<Rightarrow>
            (case socketMatch link of
               Some inode \<Rightarrow> setAdd inode inodeSet
             | None \<Rightarrow> inodeSet))"

definition getSocketInodesForPid :: "host \<Rightarrow> number \<Rightarrow> (error + jsstring list) \<times> io list" where
  "getSocketInodesForPid h pid =
     (let fdDir = str ''/proc/'' @ numberToString (inexactToString h) pid @ str ''/fd''
      in case readdir h fdDir of
           Inl message \<Rightarrow>
             (Inl (Error (str ''Unable to read fd directory: '' @ message)), [Readdir fdDir])
         | Inr files \<Rightarrow>
             (Inr (collectInodes h fdDir files []),
              Readdir fdDir # map (\<lambda>file. Readlink (fdDir @ str ''/'' @ file)) files))"

subsection \<open>Linux: the connection table\<close>

text \<open>The body of the loop of \<open>getPortsFromProcNet\<close>, for the line \<open>lines[i]\<close>.\<close>

definition procNetLine :: "host \<Rightarrow> jsstring list \<Rightarrow> jsstring \<Rightarrow> jsstring list \<Rightarrow> jsstring list" where
  "procNetLine h inodeSet raw ports =
     (let line = trim raw in
      if line = [] then ports
      else let parts = splitWs line in
        if length parts < 10 then ports
        else let inode = parts ! 9 in
          if inode \<in> set inodeSet then
            (let localAddress = parts ! 1 in
             case indexOf colon localAddress of
               None \<Rightarrow> ports
             | Some colonIndex \<Rightarrow>
                 (let portHex = drop (colonIndex + 1) localAddress;
                      portDec = numberToString (inexactToString h) (parseInt16 portHex)
                  in if portDec \<notin> set ports then ports @ [portDec] else ports))
          else ports)"

fun procNetLoop :: "host \<Rightarrow> jsstring list \<Rightarrow> jsstring list \<Rightarrow> jsstring list \<Rightarrow> jsstring list" where
  "procNetLoop h inodeSet [] ports = ports"
| "procNetLoop h inodeSet (raw # lines) ports =
     procNetLoop h inodeSet lines (procNetLine h inodeSet raw ports)"

text \<open>The loop starts at index 1: the header line is skipped.\<close>

definition getPortsFromProcNet :: "host \<Rightarrow> jsstring \<Rightarrow> jsstring list \<Rightarrow> jsstring list \<times> io list" where
  "getPortsFromProcNet h filePath inodeSet =
     (case readFile h filePath of
        Inl err \<Rightarrow> ([], [ReadFile filePath])
      | Inr content \<Rightarrow>
          (procNetLoop h inodeSet (drop 1 (split newline content)) [], [ReadFile filePath]))"

subsection \<open>Windows and macOS: the callbacks of exec\<close>

text \<open>
  The callback of the \<open>win32\<close> branch. \<open>stderr || error.message\<close> is \<open>stderr\<close>
  unless it is empty.
\<close>

definition win32Callback :: "exec_result \<Rightarrow> error + jsstring list option" where
  "win32Callback r =
     (case exec_error r of
        Some message \<Rightarrow> Inl (Error (if stderr r \<noteq> [] then stderr r else message))
      | None \<Rightarrow>
          (let trimmed = trim (stdout r) in
           if trimmed = [] then Inr None
           else let ports = filter (\<lambda>line. line \<noteq> []) (map trim (split newline trimmed))
             in Inr (if length ports > 0 then Some ports else None)))"

text \<open>The two loops of the \<open>darwin\<close> branch: over the parts of a line, over the lines.\<close>

definition darwinPart :: "jsstring \<Rightarrow> jsstring list \<Rightarrow> jsstring list" where
  "darwinPart part ports =
     (if colon \<in> set part then
        (case pop (split colon part) of
           None \<Rightarrow> ports
         | Some maybePort \<Rightarrow>
             if maybePort \<noteq> [] \<and> list_all isDigit maybePort \<and> maybePort \<notin> set ports
             then ports @ [maybePort] else ports)
      else ports)"

fun darwinParts :: "jsstring list \<Rightarrow> jsstring list \<Rightarrow> jsstring list" where
  "darwinParts [] ports = ports"
| "darwinParts (part # parts) ports = darwinParts parts (darwinPart part ports)"

fun darwinLines :: "jsstring list \<Rightarrow> jsstring list \<Rightarrow> jsstring list" where
  "darwinLines [] ports = ports"
| "darwinLines (line # lines) ports = darwinLines lines (darwinParts (splitWs line) ports)"

definition darwinCallback :: "exec_result \<Rightarrow> error + jsstring list option" where
  "darwinCallback r =
     (case exec_error r of
        Some message \<Rightarrow> Inr None
      | None \<Rightarrow>
          (let trimmed = trim (stdout r) in
           if trimmed = [] then Inr None
           else let ports = darwinLines (split newline trimmed) []
             in Inr (if length ports > 0 then Some ports else None)))"

subsection \<open>The entry point\<close>

text \<open>The two command lines, with the pid as the template literal prints it.\<close>

definition win32Command :: "jsstring \<Rightarrow> jsstring" where
  "win32Command pid =
     str ''powershell -Command '' @ [0x22]
     @ str ''Get-NetTCPConnection | Where-Object { $_.OwningProcess -eq '' @ pid
     @ str '' } | Select-Object -ExpandProperty LocalPort'' @ [0x22]"

definition darwinCommand :: "jsstring \<Rightarrow> jsstring" where
  "darwinCommand pid = str ''lsof -i -P -n | grep -w '' @ pid"

text \<open>
  The \<open>linux\<close> branch inside its \<open>try\<close>; \<open>findPortByPid\<close> wraps the error it throws.
\<close>

definition linuxBranch :: "host \<Rightarrow> number \<Rightarrow> (error + jsstring list option) \<times> io list" where
  "linuxBranch h pid =
     (case getSocketInodesForPid h pid of
        (Inl err, t) \<Rightarrow> (Inl err, t)
      | (Inr inodeSet, t) \<Rightarrow>
          if length inodeSet = 0 then (Inr None, t)
          else
            (let (tcpPorts, t4) = getPortsFromProcNet h (str ''/proc/net/tcp'') inodeSet;
                 (tcp6Ports, t6) = getPortsFromProcNet h (str ''/proc/net/tcp6'') inodeSet;
                 allPorts = newSet (tcpPorts @ tcp6Ports)
             in (Inr (if length allPorts > 0 then Some allPorts else None), t @ t4 @ t6)))"

definition findPortByPid :: "host \<Rightarrow> number \<Rightarrow> (error + jsstring list option) \<times> io list" where
  "findPortByPid h pid =
     (if \<not> isInteger pid \<or> leZero pid then (Inl (Error (str ''Invalid PID'')), [])
      else
        (let currentPlatform = platform h;
             pidText = numberToString (inexactToString h) pid
         in if currentPlatform = str ''win32'' then
              (win32Callback (exec h (win32Command pidText)),
               [Platform, Exec (win32Command pidText)])
            else if currentPlatform = str ''darwin'' then
              (darwinCallback (exec h (darwinCommand pidText)),
               [Platform, Exec (darwinCommand pidText)])
            else if currentPlatform = str ''linux'' then
              (case linuxBranch h pid of
                 (Inl (Error message), t) \<Rightarrow>
                   (Inl (Error (str ''Error reading Linux network info: '' @ message)),
                    Platform # t)
               | (Inr ports, t) \<Rightarrow> (Inr ports, Platform # t))
            else (Inl (Error (str ''Unsupported platform: '' @ currentPlatform)), [Platform])))"


section \<open>The specification's words\<close>

text \<open>
  The definitions of this section are written from the specification, not from the
  program; the theorems below compare the two.
\<close>

subsection \<open>The connection table\<close>

text \<open>
  The records of a connection table: every line after the header line, cut at white
  space, that has at least 10 fields.
\<close>

definition spec_records :: "jsstring \<Rightarrow> jsstring list list" where
  "spec_records content =
     filter (\<lambda>row. 10 \<le> length row)
       (map (\<lambda>raw. splitWs (trim raw)) (drop 1 (split newline content)))"

text \<open>A table that cannot be read has no records.\<close>

definition spec_table :: "host \<Rightarrow> jsstring \<Rightarrow> jsstring list list" where
  "spec_table h filePath =
     (case readFile h filePath of Inl err \<Rightarrow> [] | Inr content \<Rightarrow> spec_records content)"

text \<open>The records whose resource identifier (field 9) is in the set, and the others.\<close>

definition spec_matching :: "jsstring list \<Rightarrow> jsstring list list \<Rightarrow> jsstring list list" where
  "spec_matching inodes rows = filter (\<lambda>row. row ! 9 \<in> set inodes) rows"

definition spec_nonMatching :: "jsstring list \<Rightarrow> jsstring list list \<Rightarrow> jsstring list list" where
  "spec_nonMatching inodes rows = filter (\<lambda>row. row ! 9 \<notin> set inodes) rows"

text \<open>The text after the colon of a local address \<open>HEXIP:HEXPORT\<close>.\<close>

definition spec_afterColon :: "jsstring \<Rightarrow> jsstring" where
  "spec_afterColon address = drop 1 (dropWhile (\<lambda>c. c \<noteq> colon) address)"

text \<open>
  The value of a digit string in a base, by position: the last digit counts once, the
  one before it \<open>base\<close> times, and so on.
\<close>

definition spec_positional :: "nat \<Rightarrow> (code_unit \<Rightarrow> nat) \<Rightarrow> jsstring \<Rightarrow> nat" where
  "spec_positional base digit s = (\<Sum>n = 0..<length s. digit (rev s ! n) * base ^ n)"

definition spec_base16 :: "jsstring \<Rightarrow> nat" where
  "spec_base16 s = spec_positional 16 hexDigitValue s"

definition spec_base10 :: "jsstring \<Rightarrow> nat" where
  "spec_base10 s = spec_positional 10 (\<lambda>c. c - 0x30) s"

text \<open>
  A decimal string of a number: decimal digits, at least one, no leading zero except in
  \<open>0\<close> itself, whose value in base 10 is the number.
\<close>

definition spec_decimal :: "jsstring \<Rightarrow> nat \<Rightarrow> bool" where
  "spec_decimal s n =
     (s \<noteq> [] \<and> list_all isDigit s \<and> (length s = 1 \<or> take 1 s \<noteq> str ''0'')
      \<and> spec_base10 s = n)"

text \<open>
  A port text of the kernel's table: hexadecimal digits, at least one, of a value that a
  double holds exactly (the kernel writes four digits).
\<close>

definition spec_hexPort :: "jsstring \<Rightarrow> bool" where
  "spec_hexPort t = (t \<noteq> [] \<and> list_all isHexDigit t \<and> spec_base16 t < 2 ^ 53)"


text \<open>A record in the kernel's format: field 1 is \<open>HEXIP:HEXPORT\<close>.\<close>

definition spec_wellFormed :: "jsstring list \<Rightarrow> bool" where
  "spec_wellFormed row =
     (colon \<in> set (row ! 1) \<and> spec_hexPort (spec_afterColon (row ! 1)))"

text \<open>The port of a record: its hex text, decoded in base 16, rendered in decimal.\<close>

definition spec_port :: "jsstring list \<Rightarrow> jsstring" where
  "spec_port row = digits10 (spec_base16 (spec_afterColon (row ! 1)))"


subsection \<open>The lister's output\<close>

text \<open>
  The port of a token: the text after its last colon, when the token has a colon and
  that text is decimal digits, at least one.
\<close>

definition spec_afterLastColon :: "jsstring \<Rightarrow> jsstring" where
  "spec_afterLastColon token = rev (takeWhile (\<lambda>c. c \<noteq> colon) (rev token))"

definition spec_tokenPort :: "jsstring \<Rightarrow> jsstring option" where
  "spec_tokenPort token =
     (if colon \<in> set token \<and> spec_afterLastColon token \<noteq> []
         \<and> list_all isDigit (spec_afterLastColon token)
      then Some (spec_afterLastColon token) else None)"

text \<open>The ports of an output: those of every token of every line.\<close>

definition spec_darwinPorts :: "jsstring \<Rightarrow> jsstring list" where
  "spec_darwinPorts out =
     List.map_filter spec_tokenPort (concat (map splitWs (split newline (trim out))))"


section \<open>Example hosts\<close>

text \<open>
  Concrete hosts, on which the theorems below are instantiated. The rows of the tables
  are written as the kernel writes them.
\<close>

definition unlines :: "jsstring list \<Rightarrow> jsstring" where
  "unlines ls = concat (map (\<lambda>l. l @ [newline]) ls)"

definition tableHeader :: jsstring where
  "tableHeader = str ''  sl  local_address rem_address   st tx_queue rx_queue tr tm->when retrnsmt   uid  timeout inode''"

text \<open>A listener on 127.0.0.1:8080, socket 12345.\<close>

definition row8080 :: jsstring where
  "row8080 = str ''   0: 0100007F:1F90 00000000:0000 0A 00000000:00000000 00:00000000 00000000  1000        0 12345 1 0000000000000000 100 0 0 10 0''"

text \<open>A listener on 127.0.0.1:22, socket 777, of another process.\<close>

definition row22 :: jsstring where
  "row22 = str ''   1: 0100007F:0016 00000000:0000 0A 00000000:00000000 00:00000000 00000000     0        0 777 1 0000000000000000 100 0 0 10 0''"

text \<open>A connection accepted on port 8080, socket 12346.\<close>

definition rowAccepted :: jsstring where
  "rowAccepted = str ''   2: 0100007F:1F90 0100007F:D2A4 01 00000000:00000000 00:00000000 00000000  1000        0 12346 1 0000000000000000 20 4 30 10 -1''"

text \<open>A row of the IPv6 table: a listener on [::]:3000, socket 12346.\<close>

definition row3000 :: jsstring where
  "row3000 = str ''   0: 00000000000000000000000000000000:0BB8 00000000000000000000000000000000:0000 0A 00000000:00000000 00:00000000 00000000  1000        0 12346 1 0000000000000000 100 0 0 10 0''"

text \<open>
  A Linux host with one process, 42: its descriptors with what \<open>readlink\<close> gives for
  each, and what reading each of the two tables gives.
\<close>

definition linuxHost ::
  "(jsstring \<times> (jsstring + jsstring)) list \<Rightarrow> jsstring + jsstring \<Rightarrow> jsstring + jsstring \<Rightarrow> host" where
  "linuxHost fds tcp tcp6 =
     \<lparr> inexactToString = (\<lambda>q. []),
       platform = str ''linux'',
       exec = (\<lambda>command. \<lparr> exec_error = Some (str ''spawn ENOENT''), stdout = [], stderr = [] \<rparr>),
       readdir = (\<lambda>path. if path = str ''/proc/42/fd'' then Inr (map fst fds)
                         else Inl (str ''ENOENT: no such file or directory'')),
       readlink = (\<lambda>path. case map_of (map (\<lambda>(file, link). (str ''/proc/42/fd/'' @ file, link)) fds) path of
                             Some link \<Rightarrow> link
                           | None \<Rightarrow> Inl (str ''ENOENT: no such file or directory'')),
       readFile = (\<lambda>path. if path = str ''/proc/net/tcp'' then tcp
                          else if path = str ''/proc/net/tcp6'' then tcp6
                          else Inl (str ''ENOENT: no such file or directory'')) \<rparr>"

definition descriptors :: "(jsstring \<times> (jsstring + jsstring)) list" where
  "descriptors =
     [(str ''0'', Inr (str ''/dev/pts/0'')),
      (str ''3'', Inr (str ''socket:[12345]'')),
      (str ''4'', Inl (str ''ENOENT: no such file or directory'')),
      (str ''5'', Inr (str ''socket:[12346]''))]"

text \<open>Two sockets on two ports, one in each table.\<close>

definition hostTwoPorts :: host where
  "hostTwoPorts =
     linuxHost descriptors (Inr (unlines [tableHeader, row8080, row22]))
       (Inr (unlines [tableHeader, row3000]))"

text \<open>A server and a connection it accepted: two sockets on one port; no IPv6 table.\<close>

definition hostServer :: host where
  "hostServer =
     linuxHost descriptors (Inr (unlines [tableHeader, row8080, row22, rowAccepted]))
       (Inl (str ''ENOENT: no such file or directory''))"

text \<open>A host without the IPv4 table: the socket 12346 listens on port 3000.\<close>

definition hostIPv6Only :: host where
  "hostIPv6Only =
     linuxHost descriptors (Inl (str ''ENOENT: no such file or directory''))
       (Inr (unlines [tableHeader, row3000]))"

text \<open>A host of another platform, whose spawned command always gives the same result.\<close>

definition execHost :: "jsstring \<Rightarrow> exec_result \<Rightarrow> host" where
  "execHost name r =
     \<lparr> inexactToString = (\<lambda>q. []),
       platform = name,
       exec = (\<lambda>command. r),
       readdir = (\<lambda>path. Inl (str ''ENOENT: no such file or directory'')),
       readlink = (\<lambda>path. Inl (str ''ENOENT: no such file or directory'')),
       readFile = (\<lambda>path. Inl (str ''ENOENT: no such file or directory'')) \<rparr>"

text \<open>What lsof prints for a process listening on port 3000 on both loopback addresses.\<close>

definition lsofOutput :: jsstring where
  "lsofOutput = unlines
     [str ''node      42 user   21u  IPv4 0x1a2b3c      0t0  TCP 127.0.0.1:3000 (LISTEN)'',
      str ''node      42 user   22u  IPv6 0x1a2b3d      0t0  TCP [::1]:3000 (LISTEN)'']"

text \<open>What PowerShell prints for a server on port 443 with one connection open.\<close>

definition powershellOutput :: jsstring where
  "powershellOutput = str ''443'' @ [0x0D, 0x0A] @ str ''443'' @ [0x0D, 0x0A]"



section \<open>Properties\<close>

subsection \<open>Sets, lines and numbers\<close>

lemma isWhiteSpace_fast:
  "isWhiteSpace c = (if c < 0x21 then (c = 0x20 \<or> (0x09 \<le> c \<and> c \<le> 0x0D))
     else if c < 0xA0 then False
     else (c = 0xA0 \<or> c = 0x1680 \<or> (0x2000 \<le> c \<and> c \<le> 0x200A) \<or> c = 0x2028 \<or> c = 0x2029
      \<or> c = 0x202F \<or> c = 0x205F \<or> c = 0x3000 \<or> c = 0xFEFF))"
  unfolding isWhiteSpace_def by auto

lemma setAdd_set: "set (setAdd x xs) = insert x (set xs)"
  by (auto simp: setAdd_def)

lemma setAdd_distinct: "distinct xs \<Longrightarrow> distinct (setAdd x xs)"
  by (simp add: setAdd_def)

lemma foldl_setAdd_set: "set (foldl (\<lambda>s x. setAdd x s) acc xs) = set acc \<union> set xs"
  by (induction xs arbitrary: acc) (auto simp: setAdd_set)

lemma foldl_setAdd_distinct: "distinct acc \<Longrightarrow> distinct (foldl (\<lambda>s x. setAdd x s) acc xs)"
  by (induction xs arbitrary: acc) (auto simp: setAdd_distinct)

lemma newSet_set: "set (newSet xs) = set xs"
  by (simp add: newSet_def foldl_setAdd_set)

lemma newSet_distinct: "distinct (newSet xs)"
  by (simp add: newSet_def foldl_setAdd_distinct)

lemma foldl_setAdd_id: "distinct (acc @ xs) \<Longrightarrow> foldl (\<lambda>s x. setAdd x s) acc xs = acc @ xs"
  by (induction xs arbitrary: acc) (auto simp: setAdd_def)

lemma newSet_id: "distinct xs \<Longrightarrow> newSet xs = xs"
  using foldl_setAdd_id [of "[]" xs] by (simp add: newSet_def)

lemma splitWs_Nil: "splitWs [] = [[]]"
  by (simp add: splitWs.simps)

lemma address_case:
  "(case indexOf colon a of
      None \<Rightarrow> ports
    | Some colonIndex \<Rightarrow>
        (let portHex = drop (colonIndex + 1) a; portDec = f (parseInt16 portHex)
         in if portDec \<notin> set ports then ports @ [portDec] else ports))
   = (if colon \<in> set a then setAdd (f (parseInt16 (spec_afterColon a))) ports else ports)"
  by (simp add: indexOf_def spec_afterColon_def dropWhile_eq_drop setAdd_def Let_def)

lemma procNetLine_eq:
  "procNetLine h S raw ports =
     (let row = splitWs (trim raw) in
      if 10 \<le> length row \<and> row ! 9 \<in> set S \<and> colon \<in> set (row ! 1)
      then setAdd (numberToString (inexactToString h) (parseInt16 (spec_afterColon (row ! 1)))) ports
      else ports)"
  unfolding procNetLine_def Let_def address_case [unfolded Let_def]
  by (simp add: splitWs_Nil)


lemma procNetLoop_set:
  "set (procNetLoop h S lines ports) =
     set ports \<union>
     (\<lambda>row. numberToString (inexactToString h) (parseInt16 (spec_afterColon (row ! 1)))) `
       {row \<in> set (map (\<lambda>raw. splitWs (trim raw)) lines).
          10 \<le> length row \<and> row ! 9 \<in> set S \<and> colon \<in> set (row ! 1)}"
proof (induction lines arbitrary: ports)
  case Nil
  show ?case by simp
next
  case (Cons raw lines)
  show ?case
    unfolding procNetLoop.simps Cons.IH procNetLine_eq Let_def
    by (auto simp: setAdd_set)
qed

lemma procNetLine_distinct: "distinct ports \<Longrightarrow> distinct (procNetLine h S raw ports)"
  by (simp add: procNetLine_eq Let_def setAdd_distinct)

lemma procNetLoop_distinct: "distinct ports \<Longrightarrow> distinct (procNetLoop h S lines ports)"
  by (induction lines arbitrary: ports) (simp_all add: procNetLine_distinct)

lemma spec_positional_horner: "spec_positional base digit s = horner_sum digit base (rev s)"
  by (simp add: spec_positional_def horner_sum_eq_sum)

lemma foldl_positional:
  "foldl (\<lambda>a c. base * a + digit c) 0 s = spec_positional base digit s"
proof -
  have "foldl (\<lambda>a c. base * a + digit c) 0 s = foldr (\<lambda>c a. digit c + base * a) (rev s) 0"
    by (induction s rule: rev_induct) simp_all
  then show ?thesis
    by (simp add: spec_positional_horner horner_sum_foldr)
qed

lemma hexValue_base16: "hexValue s = spec_base16 s"
  by (simp add: hexValue_def spec_base16_def foldl_positional)

lemma spec_positional_snoc:
  "spec_positional base digit (s @ [c]) = base * spec_positional base digit s + digit c"
  by (simp add: spec_positional_horner)

lemma spec_positional_single: "spec_positional base digit [c] = digit c"
  by (simp add: spec_positional_horner)

lemma digitChar_isDigit: "d < 10 \<Longrightarrow> isDigit (digitChar d)"
  by (simp add: isDigit_def digitChar_def)

lemma digits10_nonempty: "digits10 n \<noteq> []"
  by (subst digits10.simps) simp

lemma digits10_digits: "list_all isDigit (digits10 n)"
proof (induction n rule: digits10.induct)
  case (1 n)
  show ?case
  proof (cases "n < 10")
    case True
    then show ?thesis by (subst digits10.simps) (simp add: digitChar_isDigit)
  next
    case False
    with "1.IH" show ?thesis by (subst digits10.simps) (simp add: digitChar_isDigit)
  qed
qed

lemma digits10_value: "spec_base10 (digits10 n) = n"
proof (induction n rule: digits10.induct)
  case (1 n)
  show ?case
  proof (cases "n < 10")
    case True
    then show ?thesis
      by (subst digits10.simps) (simp add: spec_base10_def spec_positional_single digitChar_def)
  next
    case False
    with "1.IH" have "spec_base10 (digits10 (n div 10)) = n div 10" by simp
    with False show ?thesis
      by (subst digits10.simps)
        (simp add: spec_base10_def spec_positional_snoc digitChar_def)
  qed
qed

lemma digits10_leading: "0 < n \<Longrightarrow> take 1 (digits10 n) \<noteq> str ''0''"
proof (induction n rule: digits10.induct)
  case (1 n)
  show ?case
  proof (cases "n < 10")
    case True
    with "1.prems" show ?thesis
      by (subst digits10.simps) (simp add: digitChar_def str_def)
  next
    case False
    then have "0 < n div 10" by simp
    with False "1.IH" have "take 1 (digits10 (n div 10)) \<noteq> str ''0''" by simp
    moreover have "take 1 (digits10 n) = take 1 (digits10 (n div 10))"
      using False digits10_nonempty [of "n div 10"]
      by (subst digits10.simps) (cases "digits10 (n div 10)"; simp)
    ultimately show ?thesis by simp
  qed
qed

lemma digits10_zero: "digits10 0 = str ''0''"
  by (subst digits10.simps) (simp add: digitChar_def str_def)

lemma digits10_decimal: "spec_decimal (digits10 n) n"
proof (cases "n = 0")
  case True
  then show ?thesis
    using digits10_value [of 0] digits10_digits [of 0] 
    by (simp add: spec_decimal_def digits10_zero str_def)
next
  case False
  then have "take 1 (digits10 n) \<noteq> str ''0''"
    using digits10_leading [of n] by simp
  then show ?thesis
    unfolding spec_decimal_def
    by (simp add: digits10_nonempty digits10_digits digits10_value)
qed


lemma isHexDigit_not_space: "isHexDigit c \<Longrightarrow> \<not> isWhiteSpace c"
  by (auto simp: isHexDigit_def isWhiteSpace_def)

lemma parseInt16_hex:
  assumes "t \<noteq> []" and "list_all isHexDigit t"
  shows "parseInt16 t = Finite (of_nat (spec_base16 t))"
proof -
  from assms obtain c cs where t: "t = c # cs" and c: "isHexDigit c" and cs: "list_all isHexDigit cs"
    by (cases t) auto
  have drop: "dropWhile isWhiteSpace t = t"
    using t c by (simp add: isHexDigit_not_space)
  have sign: "take 1 t \<noteq> str ''-''" "take 1 t \<noteq> str ''+''"
    using t c by (auto simp: str_def isHexDigit_def)
  have prefix: "take 2 t \<noteq> str ''0x''" "take 2 t \<noteq> str ''0X''"
    using t cs by (cases cs; auto simp: str_def isHexDigit_def)+
  have all: "takeWhile isHexDigit t = t"
    using assms(2) by (simp add: list_all_iff takeWhile_eq_all_conv)
  show ?thesis
    unfolding parseInt16_def Let_def drop
    using sign prefix assms(1) by (simp add: all hexValue_base16)
qed

lemma numberToString_nat:
  "n < 2 ^ 53 \<Longrightarrow> numberToString inexact (Finite (of_nat n)) = digits10 n"
proof -
  assume n: "n < 2 ^ 53"
  have "\<bar>rat_of_nat n\<bar> < 2 ^ 53"
  proof -
    have "rat_of_nat n < rat_of_nat (2 ^ 53)"
      using n by (simp only: of_nat_less_iff)
    then show ?thesis by simp
  qed
  moreover have "rat_of_nat n = rat_of_int \<lfloor>rat_of_nat n\<rfloor>"
    by simp
  ultimately show ?thesis
    by (simp add: numberToString_def intToString_def)
qed

lemma decode_hexPort:
  "spec_hexPort t \<Longrightarrow>
     numberToString inexact (parseInt16 t) = digits10 (spec_base16 t)"
  by (simp add: spec_hexPort_def parseInt16_hex numberToString_nat)


subsection \<open>The primitives on examples\<close>

lemma trim_example: "trim (str ''  443 '' @ [0x0D, 0x0A]) = str ''443''"
  by (simp add: trim_def isWhiteSpace_fast str_def)

lemma split_example:
  "split colon (str ''::1:3000'') = [[], [], str ''1'', str ''3000'']"
  "split newline (str ''a'' @ [newline] @ str ''b'' @ [newline]) = [str ''a'', str ''b'', []]"
  "split newline [] = [[]]"
  by (simp_all add: colon_def newline_def str_def)

lemma splitWs_example:
  "splitWs (str ''TCP  127.0.0.1:3000 (LISTEN)'') = [str ''TCP'', str ''127.0.0.1:3000'', str ''(LISTEN)'']"
  "splitWs (str '' a b '') = [[], str ''a'', str ''b'', []]"
  by (simp_all add: splitWs.simps isWhiteSpace_fast str_def)

lemma parseInt16_example:
  "parseInt16 (str ''1F90'') = Finite 8080"
  "parseInt16 (str ''0016'') = Finite 22"
  "parseInt16 (str ''-0x1f'') = Finite (- 31)"
  "parseInt16 (str ''1F90xyz'') = Finite 8080"
  "parseInt16 (str ''xyz'') = NaN"
  "parseInt16 [] = NaN"
  by (simp_all add: parseInt16_def isWhiteSpace_fast isHexDigit_def hexValue_def
      hexDigitValue_def str_def)

lemma numberToString_example:
  "numberToString inexact (Finite 8080) = str ''8080''"
  "numberToString inexact (Finite (- 31)) = str ''-31''"
  "numberToString inexact (Finite 0) = str ''0''"
  by (simp_all add: numberToString_def intToString_def digits10.simps digitChar_def str_def)

lemma socketMatch_example:
  "socketMatch (str ''socket:[12345]'') = Some (str ''12345'')"
  "socketMatch (str ''socket:[]'') = None"
  "socketMatch (str ''pipe:[12345]'') = None"
  "socketMatch (str ''socket:[12345] '') = None"
  "socketMatch (str ''/dev/pts/0'') = None"
  by (simp_all add: socketMatch_def isDigit_def str_def)

lemma socketMatch_iff:
  "socketMatch link = Some inode \<longleftrightarrow>
     inode \<noteq> [] \<and> list_all isDigit inode \<and> link = str ''socket:['' @ inode @ str '']''"
proof
  assume "socketMatch link = Some inode"
  then have pre: "take 8 link = str ''socket:[''"
    and dig: "inode = takeWhile isDigit (drop 8 link)" "inode \<noteq> []"
    and rest: "dropWhile isDigit (drop 8 link) = str '']''"
    by (auto simp: socketMatch_def Let_def split: if_splits)
  have "link = take 8 link @ drop 8 link" by simp
  also have "drop 8 link = takeWhile isDigit (drop 8 link) @ dropWhile isDigit (drop 8 link)"
    by simp
  finally have "link = str ''socket:['' @ inode @ str '']''"
    using pre dig rest by simp
  moreover have "list_all isDigit inode"
    unfolding dig(1) list_all_iff by (auto dest: set_takeWhileD)
  ultimately show "inode \<noteq> [] \<and> list_all isDigit inode \<and> link = str ''socket:['' @ inode @ str '']''"
    using dig(2) by simp
next
  assume a: "inode \<noteq> [] \<and> list_all isDigit inode \<and> link = str ''socket:['' @ inode @ str '']''"
  then have all: "\<forall>c \<in> set inode. isDigit c"
    by (simp add: list_all_iff)
  have bracket: "\<not> isDigit 0x5D"
    by (simp add: isDigit_def)
  have "length (str ''socket:['') = 8"
    by (simp add: str_def)
  then have "take 8 link = str ''socket:[''" "drop 8 link = inode @ str '']''"
    using a by simp_all
  moreover have "takeWhile isDigit (inode @ str '']'') = inode"
    using all bracket by (simp add: takeWhile_append2 str_def)
  moreover have "dropWhile isDigit (inode @ str '']'') = str '']''"
    using all bracket by (simp add: dropWhile_append2 str_def)
  ultimately show "socketMatch link = Some inode"
    using a by (simp add: socketMatch_def)
qed

subsection \<open>The Linux path\<close>

lemma getPortsFromProcNet_set:
  "set (fst (getPortsFromProcNet h filePath S)) =
     (\<lambda>row. numberToString (inexactToString h) (parseInt16 (spec_afterColon (row ! 1)))) `
       {row \<in> set (spec_matching S (spec_table h filePath)). colon \<in> set (row ! 1)}"
  by (cases "readFile h filePath")
    (auto simp: getPortsFromProcNet_def spec_table_def spec_records_def spec_matching_def
       procNetLoop_set)

lemma getPortsFromProcNet_distinct: "distinct (fst (getPortsFromProcNet h filePath S))"
  by (cases "readFile h filePath") (simp_all add: getPortsFromProcNet_def procNetLoop_distinct)

lemma getPortsFromProcNet_wellFormed:
  assumes "\<forall>row \<in> set (spec_matching S (spec_table h filePath)). spec_wellFormed row"
  shows "set (fst (getPortsFromProcNet h filePath S)) =
           spec_port ` set (spec_matching S (spec_table h filePath))"
proof -
  have "numberToString (inexactToString h) (parseInt16 (spec_afterColon (row ! 1))) = spec_port row
        \<and> colon \<in> set (row ! 1)"
    if "row \<in> set (spec_matching S (spec_table h filePath))" for row
    using assms that by (simp add: spec_wellFormed_def spec_port_def decode_hexPort)
  then show ?thesis
    unfolding getPortsFromProcNet_set by (auto simp: image_iff)
qed

lemma spec_matching_append:
  "spec_matching S (xs @ ys) = spec_matching S xs @ spec_matching S ys"
  by (simp add: spec_matching_def)

text \<open>The \<open>linux\<close> branch, once the sockets of the process are known.\<close>

lemma linuxBranch_ports:
  assumes "fst (getSocketInodesForPid h pid) = Inr S"
  shows "fst (linuxBranch h pid) =
           Inr (let allPorts = newSet (fst (getPortsFromProcNet h (str ''/proc/net/tcp'') S)
                                       @ fst (getPortsFromProcNet h (str ''/proc/net/tcp6'') S))
                in if allPorts = [] then None else Some allPorts)"
proof (cases "S = []")
  case True
  have "fst (getPortsFromProcNet h p []) = []" for p
    using getPortsFromProcNet_set [of h p "[]"] by (simp add: spec_matching_def)
  with True assms show ?thesis
    by (auto simp: linuxBranch_def newSet_def split: prod.splits)
next
  case False
  with assms show ?thesis
    by (auto simp: linuxBranch_def Let_def split: prod.splits)
qed

lemma findPortByPid_linux:
  assumes "platform h = str ''linux''" and "0 < n"
  shows "fst (findPortByPid h (Finite (of_int n))) =
           (case fst (linuxBranch h (Finite (of_int n))) of
              Inl (Error message) \<Rightarrow>
                Inl (Error (str ''Error reading Linux network info: '' @ message))
            | Inr ports \<Rightarrow> Inr ports)"
proof -
  have "platform h \<noteq> str ''win32''" "platform h \<noteq> str ''darwin''"
    using assms(1) by (simp_all add: str_def)
  moreover have "isInteger (Finite (of_int n))" "\<not> leZero (Finite (of_int n))"
    using assms(2) by (simp_all add: isInteger_def leZero_def)
  ultimately show ?thesis
    using assms(1)
    by (simp add: findPortByPid_def Let_def split: prod.splits sum.splits error.splits)
qed

subsection \<open>The example hosts, evaluated\<close>

lemma split_append: "sep \<notin> set a \<Longrightarrow> split sep (a @ sep # b) = a # split sep b"
  by (induction a) auto

lemma split_unlines:
  "list_all (\<lambda>l. newline \<notin> set l) ls \<Longrightarrow> split newline (unlines ls) = ls @ [[]]"
  by (induction ls) (simp_all add: unlines_def split_append)

lemmas eval_fields = trim_def splitWs.simps isWhiteSpace_fast str_def

lemma row8080_fields:
  "splitWs (trim row8080) =
     map str [''0:'', ''0100007F:1F90'', ''00000000:0000'', ''0A'', ''00000000:00000000'',
       ''00:00000000'', ''00000000'', ''1000'', ''0'', ''12345'', ''1'', ''0000000000000000'',
       ''100'', ''0'', ''0'', ''10'', ''0'']"
  by (simp add: row8080_def eval_fields)

lemma row22_fields:
  "splitWs (trim row22) =
     map str [''1:'', ''0100007F:0016'', ''00000000:0000'', ''0A'', ''00000000:00000000'',
       ''00:00000000'', ''00000000'', ''0'', ''0'', ''777'', ''1'', ''0000000000000000'',
       ''100'', ''0'', ''0'', ''10'', ''0'']"
  by (simp add: row22_def eval_fields)

lemma rowAccepted_fields:
  "splitWs (trim rowAccepted) =
     map str [''2:'', ''0100007F:1F90'', ''0100007F:D2A4'', ''01'', ''00000000:00000000'',
       ''00:00000000'', ''00000000'', ''1000'', ''0'', ''12346'', ''1'', ''0000000000000000'',
       ''20'', ''4'', ''30'', ''10'', ''-1'']"
  by (simp add: rowAccepted_def eval_fields)

lemma row3000_fields:
  "splitWs (trim row3000) =
     map str [''0:'', ''00000000000000000000000000000000:0BB8'',
       ''00000000000000000000000000000000:0000'', ''0A'', ''00000000:00000000'',
       ''00:00000000'', ''00000000'', ''1000'', ''0'', ''12346'', ''1'', ''0000000000000000'',
       ''100'', ''0'', ''0'', ''10'', ''0'']"
  by (simp add: row3000_def eval_fields)

lemma rows_one_line:
  "newline \<notin> set tableHeader" "newline \<notin> set row8080" "newline \<notin> set row22"
  "newline \<notin> set rowAccepted" "newline \<notin> set row3000"
  by (simp_all add: tableHeader_def row8080_def row22_def rowAccepted_def row3000_def
      newline_def str_def)

lemma spec_records_unlines:
  "list_all (\<lambda>l. newline \<notin> set l) (header # rows) \<Longrightarrow>
     spec_records (unlines (header # rows)) =
       filter (\<lambda>row. 10 \<le> length row) (map (\<lambda>raw. splitWs (trim raw)) rows)"
  by (simp add: spec_records_def split_unlines trim_def splitWs_Nil)

lemma hostTwoPorts_tcp:
  "spec_table hostTwoPorts (str ''/proc/net/tcp'') = [splitWs (trim row8080), splitWs (trim row22)]"
  by (simp add: spec_table_def hostTwoPorts_def linuxHost_def spec_records_unlines rows_one_line
      row8080_fields row22_fields)

lemma hostTwoPorts_tcp6:
  "spec_table hostTwoPorts (str ''/proc/net/tcp6'') = [splitWs (trim row3000)]"
  by (simp add: spec_table_def hostTwoPorts_def linuxHost_def spec_records_unlines rows_one_line
      row3000_fields str_def)

lemma hostServer_tcp:
  "spec_table hostServer (str ''/proc/net/tcp'') =
     [splitWs (trim row8080), splitWs (trim row22), splitWs (trim rowAccepted)]"
  by (simp add: spec_table_def hostServer_def linuxHost_def spec_records_unlines rows_one_line
      row8080_fields row22_fields rowAccepted_fields)

lemma hostServer_tcp6: "spec_table hostServer (str ''/proc/net/tcp6'') = []"
  by (simp add: spec_table_def hostServer_def linuxHost_def str_def)

lemma linuxHost_inodes:
  "fst (getSocketInodesForPid (linuxHost descriptors tcp tcp6) (Finite 42)) =
     Inr [str ''12345'', str ''12346'']"
  by (simp add: getSocketInodesForPid_def linuxHost_def descriptors_def numberToString_def
      intToString_def digits10.simps digitChar_def socketMatch_def isDigit_def setAdd_def str_def)


subsection \<open>The join of the Linux path\<close>

lemma linuxPath_ports:
  assumes linux: "platform h = str ''linux''" and n: "0 < n"
    and inodes: "fst (getSocketInodesForPid h (Finite (of_int n))) = Inr inodes"
    and rows: "rows = spec_table h (str ''/proc/net/tcp'') @ spec_table h (str ''/proc/net/tcp6'')"
    and wf: "\<forall>row \<in> set (spec_matching inodes rows). spec_wellFormed row"
  shows "\<exists>ports.
           fst (findPortByPid h (Finite (of_int n))) = Inr (if ports = [] then None else Some ports)
           \<and> set ports = spec_port ` set (spec_matching inodes rows)
           \<and> distinct ports"
proof -
  define tcpPorts where "tcpPorts = fst (getPortsFromProcNet h (str ''/proc/net/tcp'') inodes)"
  define tcp6Ports where "tcp6Ports = fst (getPortsFromProcNet h (str ''/proc/net/tcp6'') inodes)"
  define ports where "ports = newSet (tcpPorts @ tcp6Ports)"
  have result: "fst (findPortByPid h (Finite (of_int n))) = Inr (if ports = [] then None else Some ports)"
    using findPortByPid_linux [OF linux n] linuxBranch_ports [OF inodes]
    by (simp add: ports_def tcpPorts_def tcp6Ports_def Let_def)
  have wf4: "\<forall>row \<in> set (spec_matching inodes (spec_table h (str ''/proc/net/tcp''))). spec_wellFormed row"
    and wf6: "\<forall>row \<in> set (spec_matching inodes (spec_table h (str ''/proc/net/tcp6''))). spec_wellFormed row"
    using wf by (simp_all add: rows spec_matching_append)
  have set_ports: "set ports = spec_port ` set (spec_matching inodes rows)"
    unfolding ports_def tcpPorts_def tcp6Ports_def newSet_set set_append
      getPortsFromProcNet_wellFormed [OF wf4] getPortsFromProcNet_wellFormed [OF wf6]
    by (simp add: rows spec_matching_append image_Un)
  have dist: "distinct ports"
    by (simp add: ports_def newSet_distinct)
  from result set_ports dist show ?thesis
    by blast
qed

text \<open>
  C1, as amended. On the Linux path, with the sockets of the process known and every
  matching record of the two tables in the kernel's format, the call returns exactly the
  distinct decimal port strings decoded from the matching records: as many as there are
  matching records when their ports differ pairwise, and no port that only a
  non-matching record has.
\<close>

theorem linux_join:
  assumes linux: "platform h = str ''linux''" and n: "0 < n"
    and inodes: "fst (getSocketInodesForPid h (Finite (of_int n))) = Inr inodes"
    and rows: "rows = spec_table h (str ''/proc/net/tcp'') @ spec_table h (str ''/proc/net/tcp6'')"
    and wf: "\<forall>row \<in> set (spec_matching inodes rows). spec_wellFormed row"
  shows "\<exists>ports.
           fst (findPortByPid h (Finite (of_int n))) = Inr (if ports = [] then None else Some ports)
           \<and> set ports = spec_port ` set (spec_matching inodes rows)
           \<and> distinct ports
           \<and> (distinct (map spec_port (spec_matching inodes rows)) \<longrightarrow>
                length ports = length (spec_matching inodes rows))
           \<and> (\<forall>row \<in> set (spec_nonMatching inodes rows).
                spec_port row \<notin> spec_port ` set (spec_matching inodes rows) \<longrightarrow>
                spec_port row \<notin> set ports)"
proof -
  from linuxPath_ports [OF linux n inodes rows wf] obtain ports where
    result: "fst (findPortByPid h (Finite (of_int n))) = Inr (if ports = [] then None else Some ports)"
    and set_ports: "set ports = spec_port ` set (spec_matching inodes rows)"
    and dist: "distinct ports"
    by blast
  have len: "length ports = length (spec_matching inodes rows)"
    if d: "distinct (map spec_port (spec_matching inodes rows))"
  proof -
    have "length ports = card (set ports)"
      using dist by (simp add: distinct_card)
    also have "\<dots> = card (set (map spec_port (spec_matching inodes rows)))"
      by (simp add: set_ports)
    also have "\<dots> = length (map spec_port (spec_matching inodes rows))"
      using d by (rule distinct_card)
    finally show ?thesis by simp
  qed
  from result set_ports dist len show ?thesis
    by blast
qed

lemma getPortsFromProcNet_unlines:
  assumes "readFile h filePath = Inr (unlines (header # rows))"
    and "list_all (\<lambda>l. newline \<notin> set l) (header # rows)"
  shows "fst (getPortsFromProcNet h filePath S) = procNetLoop h S (rows @ [[]]) []"
  using assms by (simp add: getPortsFromProcNet_def split_unlines)

lemma trim_Nil: "trim [] = []"
  by (simp add: trim_def)

lemmas eval_decode = spec_afterColon_def colon_def parseInt16_def isWhiteSpace_fast
  isHexDigit_def hexValue_def hexDigitValue_def numberToString_def intToString_def
  digits10.simps digitChar_def setAdd_def str_def

lemma hostServer_tcpPorts:
  "fst (getPortsFromProcNet hostServer (str ''/proc/net/tcp'') [str ''12345'', str ''12346''])
     = [str ''8080'']"
proof -
  have "readFile hostServer (str ''/proc/net/tcp'')
          = Inr (unlines [tableHeader, row8080, row22, rowAccepted])"
    by (simp add: hostServer_def linuxHost_def)
  then show ?thesis
    by (simp add: getPortsFromProcNet_unlines rows_one_line procNetLine_eq trim_Nil splitWs_Nil
        row8080_fields row22_fields rowAccepted_fields eval_decode)
qed

lemma hostServer_tcp6Ports:
  "fst (getPortsFromProcNet hostServer (str ''/proc/net/tcp6'') S) = []"
  by (simp add: getPortsFromProcNet_def hostServer_def linuxHost_def str_def)

lemma linuxHost_platform: "platform (linuxHost fds tcp tcp6) = str ''linux''"
  by (simp add: linuxHost_def)

lemma hostServer_result:
  "fst (findPortByPid hostServer (Finite 42)) = Inr (Some [str ''8080''])"
proof -
  have "fst (getSocketInodesForPid hostServer (Finite 42)) = Inr [str ''12345'', str ''12346'']"
    unfolding hostServer_def by (rule linuxHost_inodes)
  from linuxBranch_ports [OF this]
  have "fst (linuxBranch hostServer (Finite 42)) = Inr (Some [str ''8080''])"
    by (simp add: hostServer_tcpPorts hostServer_tcp6Ports newSet_def setAdd_def)
  moreover have "platform hostServer = str ''linux''"
    by (simp add: hostServer_def linuxHost_platform)
  ultimately show ?thesis
    using findPortByPid_linux [of hostServer 42] by simp
qed

lemma hostServer_matching:
  "spec_matching [str ''12345'', str ''12346'']
     (spec_table hostServer (str ''/proc/net/tcp'') @ spec_table hostServer (str ''/proc/net/tcp6''))
   = [splitWs (trim row8080), splitWs (trim rowAccepted)]"
  unfolding hostServer_tcp hostServer_tcp6
  by (simp add: spec_matching_def row8080_fields row22_fields rowAccepted_fields str_def)

text \<open>
  C1 as stated fails on a server with a connection it accepted: two matching records,
  both on port 8080, and one port returned.
\<close>

theorem linux_join_counterexample:
  "fst (getSocketInodesForPid hostServer (Finite 42)) = Inr [str ''12345'', str ''12346'']
   \<and> length (spec_matching [str ''12345'', str ''12346'']
        (spec_table hostServer (str ''/proc/net/tcp'')
         @ spec_table hostServer (str ''/proc/net/tcp6''))) = 2
   \<and> fst (findPortByPid hostServer (Finite 42)) = Inr (Some [str ''8080''])"
  using linuxHost_inodes [of "Inr (unlines [tableHeader, row8080, row22, rowAccepted])"
      "Inl (str ''ENOENT: no such file or directory'')"]
  by (simp add: hostServer_result hostServer_matching) (simp add: hostServer_def)


lemma hostTwoPorts_matching:
  "spec_matching [str ''12345'', str ''12346'']
     (spec_table hostTwoPorts (str ''/proc/net/tcp'') @ spec_table hostTwoPorts (str ''/proc/net/tcp6''))
   = [splitWs (trim row8080), splitWs (trim row3000)]"
  unfolding hostTwoPorts_tcp hostTwoPorts_tcp6
  by (simp add: spec_matching_def row8080_fields row22_fields row3000_fields str_def)

lemmas eval_spec = spec_wellFormed_def spec_hexPort_def spec_port_def hexValue_base16 [symmetric]
  spec_afterColon_def colon_def isHexDigit_def hexValue_def hexDigitValue_def
  digits10.simps digitChar_def str_def

lemma rows_wellFormed:
  "spec_wellFormed (splitWs (trim row8080))" "spec_wellFormed (splitWs (trim row22))"
  "spec_wellFormed (splitWs (trim rowAccepted))" "spec_wellFormed (splitWs (trim row3000))"
  unfolding row8080_fields row22_fields rowAccepted_fields row3000_fields
  by (simp_all add: eval_spec)

lemma rows_ports:
  "spec_port (splitWs (trim row8080)) = str ''8080''"
  "spec_port (splitWs (trim row22)) = str ''22''"
  "spec_port (splitWs (trim rowAccepted)) = str ''8080''"
  "spec_port (splitWs (trim row3000)) = str ''3000''"
  unfolding row8080_fields row22_fields rowAccepted_fields row3000_fields
  by (simp_all add: eval_spec)

text \<open>The amended C1 on a process with two sockets on two ports.\<close>

theorem linux_join_witness:
  "\<exists>ports. fst (findPortByPid hostTwoPorts (Finite 42)) = Inr (Some ports)
     \<and> set ports = {str ''8080'', str ''3000''} \<and> length ports = 2"
proof -
  have inodes: "fst (getSocketInodesForPid hostTwoPorts (Finite (of_int 42)))
                  = Inr [str ''12345'', str ''12346'']"
    unfolding hostTwoPorts_def using linuxHost_inodes by simp
  have linux: "platform hostTwoPorts = str ''linux''"
    by (simp add: hostTwoPorts_def linuxHost_platform)
  have wf: "\<forall>row \<in> set (spec_matching [str ''12345'', str ''12346'']
              (spec_table hostTwoPorts (str ''/proc/net/tcp'')
               @ spec_table hostTwoPorts (str ''/proc/net/tcp6''))). spec_wellFormed row"
    unfolding hostTwoPorts_matching by (simp add: rows_wellFormed)
  from linux_join [OF linux _ inodes refl wf]
  obtain ports where
    "fst (findPortByPid hostTwoPorts (Finite (of_int 42))) = Inr (if ports = [] then None else Some ports)"
    "set ports = spec_port ` set [splitWs (trim row8080), splitWs (trim row3000)]"
    "distinct (map spec_port [splitWs (trim row8080), splitWs (trim row3000)]) \<longrightarrow>
       length ports = length [splitWs (trim row8080), splitWs (trim row3000)]"
    unfolding hostTwoPorts_matching by auto
  moreover have "str ''8080'' \<noteq> str ''3000''"
    by (simp add: str_def)
  ultimately have "fst (findPortByPid hostTwoPorts (Finite 42)) = Inr (Some ports)
      \<and> set ports = {str ''8080'', str ''3000''} \<and> length ports = 2"
    by (auto simp: rows_ports)
  then show ?thesis ..
qed


subsection \<open>Decoding the port\<close>

lemma procNetLine_address:
  assumes "10 \<le> length (splitWs (trim raw))" and "splitWs (trim raw) ! 9 \<in> set inodeSet"
    and "splitWs (trim raw) ! 1 = address" and "colon \<in> set address"
    and "spec_hexPort (spec_afterColon address)"
  shows "procNetLine h inodeSet raw [] = [digits10 (spec_base16 (spec_afterColon address))]"
  using assms by (simp add: procNetLine_eq Let_def setAdd_def decode_hexPort)

lemma address_8080:
  "colon \<in> set (str ''0100007F:1F90'')" "spec_hexPort (spec_afterColon (str ''0100007F:1F90''))"
  "digits10 (spec_base16 (spec_afterColon (str ''0100007F:1F90''))) = str ''8080''"
  by (simp_all add: eval_spec)

lemma address_22:
  "colon \<in> set (str ''0100007F:0016'')" "spec_hexPort (spec_afterColon (str ''0100007F:0016''))"
  "digits10 (spec_base16 (spec_afterColon (str ''0100007F:0016''))) = str ''22''"
  by (simp_all add: eval_spec)

text \<open>
  C2. A record of a table that is read, whose inode matches and whose local address is
  \<open>HEXIP:HEXPORT\<close>, puts into the result a decimal string of the value in base 16 of
  the text after the colon. A matching line with the local address \<open>0100007F:1F90\<close>
  gives the port \<open>8080\<close>, and one with \<open>0100007F:0016\<close> gives \<open>22\<close>.
\<close>

theorem hex_port_decoding:
  "(readFile h filePath = Inr content \<longrightarrow> row \<in> set (spec_records content) \<longrightarrow>
      row ! 9 \<in> set inodeSet \<longrightarrow> spec_wellFormed row \<longrightarrow>
      (\<exists>port \<in> set (fst (getPortsFromProcNet h filePath inodeSet)).
          spec_decimal port (spec_base16 (spec_afterColon (row ! 1)))))
   \<and> (10 \<le> length (splitWs (trim raw)) \<longrightarrow> splitWs (trim raw) ! 9 \<in> set inodeSet \<longrightarrow>
        splitWs (trim raw) ! 1 = str ''0100007F:1F90'' \<longrightarrow>
        procNetLine h inodeSet raw [] = [str ''8080''])
   \<and> (10 \<le> length (splitWs (trim raw)) \<longrightarrow> splitWs (trim raw) ! 9 \<in> set inodeSet \<longrightarrow>
        splitWs (trim raw) ! 1 = str ''0100007F:0016'' \<longrightarrow>
        procNetLine h inodeSet raw [] = [str ''22''])"
proof (intro conjI impI)
  assume read: "readFile h filePath = Inr content" and row: "row \<in> set (spec_records content)"
    and inode: "row ! 9 \<in> set inodeSet" and wf: "spec_wellFormed row"
  have "row \<in> set (spec_matching inodeSet (spec_table h filePath))"
    using read row inode by (simp add: spec_table_def spec_matching_def)
  moreover have "colon \<in> set (row ! 1)"
    using wf by (simp add: spec_wellFormed_def)
  ultimately have
    "numberToString (inexactToString h) (parseInt16 (spec_afterColon (row ! 1)))
       \<in> set (fst (getPortsFromProcNet h filePath inodeSet))"
    unfolding getPortsFromProcNet_set by blast
  moreover have "numberToString (inexactToString h) (parseInt16 (spec_afterColon (row ! 1)))
      = digits10 (spec_base16 (spec_afterColon (row ! 1)))"
    using wf by (simp add: spec_wellFormed_def decode_hexPort)
  ultimately show "\<exists>port \<in> set (fst (getPortsFromProcNet h filePath inodeSet)).
      spec_decimal port (spec_base16 (spec_afterColon (row ! 1)))"
    using digits10_decimal by auto
next
  assume "10 \<le> length (splitWs (trim raw))" "splitWs (trim raw) ! 9 \<in> set inodeSet"
    "splitWs (trim raw) ! 1 = str ''0100007F:1F90''"
  then show "procNetLine h inodeSet raw [] = [str ''8080'']"
    using procNetLine_address [OF _ _ _ address_8080(1,2)] address_8080(3) by simp
next
  assume "10 \<le> length (splitWs (trim raw))" "splitWs (trim raw) ! 9 \<in> set inodeSet"
    "splitWs (trim raw) ! 1 = str ''0100007F:0016''"
  then show "procNetLine h inodeSet raw [] = [str ''22'']"
    using procNetLine_address [OF _ _ _ address_22(1,2)] address_22(3) by simp
qed

lemma base16_1F90: "spec_base16 (spec_afterColon (splitWs (trim row8080) ! 1)) = 8080"
  unfolding row8080_fields by (simp add: eval_spec)

text \<open>C2 on the two rows of the IPv4 table of the first example host.\<close>

theorem hex_port_decoding_witness:
  "(\<exists>port \<in> set (fst (getPortsFromProcNet hostTwoPorts (str ''/proc/net/tcp'') [str ''12345''])).
      spec_decimal port 8080)
   \<and> procNetLine hostTwoPorts [str ''12345''] row8080 [] = [str ''8080'']
   \<and> procNetLine hostTwoPorts [str ''777''] row22 [] = [str ''22'']"
proof -
  have read: "readFile hostTwoPorts (str ''/proc/net/tcp'')
                = Inr (unlines [tableHeader, row8080, row22])"
    by (simp add: hostTwoPorts_def linuxHost_def)
  have row: "splitWs (trim row8080) \<in> set (spec_records (unlines [tableHeader, row8080, row22]))"
    using hostTwoPorts_tcp read by (simp add: spec_table_def)
  have inode: "splitWs (trim row8080) ! 9 \<in> set [str ''12345'']"
    unfolding row8080_fields by (simp add: str_def)
  have first: "\<exists>port \<in> set (fst (getPortsFromProcNet hostTwoPorts (str ''/proc/net/tcp'') [str ''12345''])).
      spec_decimal port 8080"
    using hex_port_decoding [of hostTwoPorts "str ''/proc/net/tcp''" _ "splitWs (trim row8080)"
        "[str ''12345'']"] read row inode rows_wellFormed(1)
    unfolding base16_1F90 by blast
  have second: "procNetLine hostTwoPorts [str ''12345''] row8080 [] = [str ''8080'']"
    using hex_port_decoding [of hostTwoPorts _ _ _ "[str ''12345'']" row8080]
    unfolding row8080_fields by (simp add: str_def)
  have third: "procNetLine hostTwoPorts [str ''777''] row22 [] = [str ''22'']"
    using hex_port_decoding [of hostTwoPorts _ _ _ "[str ''777'']" row22]
    unfolding row22_fields by (simp add: str_def)
  from first second third show ?thesis by blast
qed


subsection \<open>The macOS path\<close>

lemma split_nonempty: "split sep s \<noteq> []"
  by (induction s) (auto split: list.splits)

lemma split_single: "sep \<notin> set s \<Longrightarrow> split sep s = [s]"
  by (induction s) auto

lemma split_two: "sep \<in> set s \<Longrightarrow> \<exists>piece other pieces. split sep s = piece # other # pieces"
proof (induction s)
  case Nil
  then show ?case by simp
next
  case (Cons x xs)
  show ?case
  proof (cases "x = sep")
    case True
    then show ?thesis
      using split_nonempty [of sep xs] by (cases "split sep xs") auto
  next
    case False
    with Cons.prems have "sep \<in> set xs" by simp
    from Cons.IH [OF this] False show ?thesis by auto
  qed
qed

lemma takeWhile_snoc_sep:
  "takeWhile (\<lambda>c. c \<noteq> sep) (ys @ [sep]) = takeWhile (\<lambda>c. c \<noteq> sep) ys"
  by (induction ys) auto

lemma last_split: "last (split sep s) = rev (takeWhile (\<lambda>c. c \<noteq> sep) (rev s))"
proof (induction s)
  case Nil
  show ?case by simp
next
  case (Cons x xs)
  show ?case
  proof (cases "x = sep")
    case True
    then show ?thesis
      using Cons.IH split_nonempty [of sep xs] by (simp add: takeWhile_snoc_sep)
  next
    case False
    show ?thesis
    proof (cases "sep \<in> set xs")
      case True
      from split_two [OF this] obtain piece other pieces where
        sp: "split sep xs = piece # other # pieces" by blast
      have "takeWhile (\<lambda>c. c \<noteq> sep) (rev xs @ [x]) = takeWhile (\<lambda>c. c \<noteq> sep) (rev xs)"
        using True by (simp add: takeWhile_append1 [where x = sep])
      with False sp Cons.IH show ?thesis by simp
    next
      case nosep: False
      have tw: "takeWhile (\<lambda>c. c \<noteq> sep) (rev xs @ [x]) = rev xs @ [x]"
        using False nosep by (auto simp: takeWhile_eq_all_conv)
      have "last (split sep (x # xs)) = x # xs"
        using False nosep by (simp add: split_single)
      then show ?thesis
        unfolding rev.simps tw by simp
    qed
  qed
qed

lemma pop_split: "pop (split colon part) = Some (spec_afterLastColon part)"
proof -
  have "pop xs = Some (last xs)" if "xs \<noteq> []" for xs :: "jsstring list"
    using that by (cases xs rule: rev_cases) (simp_all add: pop_def)
  then show ?thesis
    by (simp add: split_nonempty last_split spec_afterLastColon_def)
qed

lemma darwinPart_eq:
  "darwinPart part ports =
     (case spec_tokenPort part of None \<Rightarrow> ports | Some port \<Rightarrow> setAdd port ports)"
  by (simp add: darwinPart_def pop_split spec_tokenPort_def setAdd_def)

lemma darwinParts_eq:
  "darwinParts parts ports = foldl (\<lambda>s x. setAdd x s) ports (List.map_filter spec_tokenPort parts)"
  by (induction parts arbitrary: ports)
    (simp_all add: darwinPart_eq List.map_filter_simps split: option.splits)

lemma map_filter_append:
  "List.map_filter f (xs @ ys) = List.map_filter f xs @ List.map_filter f ys"
  by (simp add: List.map_filter_def)

lemma darwinLines_eq:
  "darwinLines lines ports =
     foldl (\<lambda>s x. setAdd x s) ports
       (List.map_filter spec_tokenPort (concat (map splitWs lines)))"
  by (induction lines arbitrary: ports) (simp_all add: darwinParts_eq map_filter_append)

lemma darwinCallback_ports:
  assumes "exec_error r = None"
  shows "\<exists>ports. darwinCallback r = Inr (if ports = [] then None else Some ports)
           \<and> set ports = set (spec_darwinPorts (stdout r)) \<and> distinct ports"
proof (cases "trim (stdout r) = []")
  case True
  have "spec_darwinPorts (stdout r) = []"
    by (simp add: spec_darwinPorts_def True splitWs_Nil List.map_filter_simps
        spec_tokenPort_def)
  with True assms show ?thesis
    by (auto simp: darwinCallback_def)
next
  case False
  define ports where "ports = darwinLines (split newline (trim (stdout r))) []"
  have "darwinCallback r = Inr (if ports = [] then None else Some ports)"
    using assms False by (simp add: darwinCallback_def ports_def Let_def)
  moreover have "set ports = set (spec_darwinPorts (stdout r))"
    by (simp add: ports_def darwinLines_eq foldl_setAdd_set spec_darwinPorts_def)
  moreover have "distinct ports"
    by (simp add: ports_def darwinLines_eq foldl_setAdd_distinct)
  ultimately show ?thesis by blast
qed

lemma findPortByPid_darwin:
  assumes "platform h = str ''darwin''" and "0 < n"
  shows "fst (findPortByPid h (Finite (of_int n))) =
           darwinCallback (exec h (darwinCommand
             (numberToString (inexactToString h) (Finite (of_int n)))))"
proof -
  have "platform h \<noteq> str ''win32''"
    using assms(1) by (simp add: str_def)
  moreover have "isInteger (Finite (of_int n))" "\<not> leZero (Finite (of_int n))"
    using assms(2) by (simp_all add: isInteger_def leZero_def)
  ultimately show ?thesis
    using assms(1) by (simp add: findPortByPid_def Let_def)
qed

lemma findPortByPid_win32:
  assumes "platform h = str ''win32''" and "0 < n"
  shows "fst (findPortByPid h (Finite (of_int n))) =
           win32Callback (exec h (win32Command
             (numberToString (inexactToString h) (Finite (of_int n)))))"
proof -
  have "isInteger (Finite (of_int n))" "\<not> leZero (Finite (of_int n))"
    using assms(2) by (simp_all add: isInteger_def leZero_def)
  then show ?thesis
    using assms(1) by (simp add: findPortByPid_def Let_def)
qed

lemmas eval_token = darwinPart_def pop_def colon_def isDigit_def setAdd_def str_def

text \<open>
  C3. On macOS, when the lister exits without an error, the ports returned are exactly
  those of the tokens of the lines of its output: of each token that has a colon, the
  text after its last colon, when that text is decimal digits. The tokens \<open>TCP\<close>,
  \<open>127.0.0.1:3000\<close>, \<open>(LISTEN)\<close> give the port \<open>3000\<close>, and so does the token
  \<open>::1:3000\<close>, whose text after the first colon is not a port.
\<close>

theorem darwin_token_scanning:
  "(platform h = str ''darwin'' \<longrightarrow> 0 < n \<longrightarrow>
      r = exec h (darwinCommand (numberToString (inexactToString h) (Finite (of_int n)))) \<longrightarrow>
      exec_error r = None \<longrightarrow>
      (\<exists>ports. fst (findPortByPid h (Finite (of_int n))) = Inr (if ports = [] then None else Some ports)
         \<and> set ports = set (spec_darwinPorts (stdout r)) \<and> distinct ports))
   \<and> darwinParts [str ''TCP'', str ''127.0.0.1:3000'', str ''(LISTEN)''] [] = [str ''3000'']
   \<and> darwinPart (str ''::1:3000'') [] = [str ''3000'']
   \<and> spec_afterColon (str ''::1:3000'') = str '':1:3000''"
proof (intro conjI impI)
  assume "platform h = str ''darwin''" "0 < n"
    "r = exec h (darwinCommand (numberToString (inexactToString h) (Finite (of_int n))))"
    "exec_error r = None"
  then show "\<exists>ports. fst (findPortByPid h (Finite (of_int n))) = Inr (if ports = [] then None else Some ports)
         \<and> set ports = set (spec_darwinPorts (stdout r)) \<and> distinct ports"
    using darwinCallback_ports [of r] by (simp add: findPortByPid_darwin)
next
  show "darwinParts [str ''TCP'', str ''127.0.0.1:3000'', str ''(LISTEN)''] [] = [str ''3000'']"
    by (simp add: eval_token)
next
  show "darwinPart (str ''::1:3000'') [] = [str ''3000'']"
    by (simp add: eval_token)
next
  show "spec_afterColon (str ''::1:3000'') = str '':1:3000''"
    by (simp add: spec_afterColon_def colon_def str_def)
qed


lemma distinct_one: "distinct xs \<Longrightarrow> set xs = {x} \<Longrightarrow> xs = [x]"
proof (cases xs)
  case Nil
  assume "set xs = {x}"
  with Nil show ?thesis by simp
next
  case (Cons y ys)
  assume d: "distinct xs" and s: "set xs = {x}"
  from s Cons have y: "y = x" by auto
  from d s Cons y have "set ys \<subseteq> {x}" "x \<notin> set ys" by auto
  then have "ys = []" by (cases ys) auto
  with Cons y show ?thesis by simp
qed

lemma lsofOutput_ports: "spec_darwinPorts lsofOutput = [str ''3000'', str ''3000'']"
  by (simp add: spec_darwinPorts_def lsofOutput_def unlines_def trim_def newline_def
      splitWs.simps isWhiteSpace_fast spec_tokenPort_def spec_afterLastColon_def colon_def
      isDigit_def List.map_filter_simps str_def)

text \<open>C3 on a process that listens on port 3000 on both loopback addresses.\<close>

theorem darwin_token_scanning_witness:
  "fst (findPortByPid
         (execHost (str ''darwin'') \<lparr> exec_error = None, stdout = lsofOutput, stderr = [] \<rparr>)
         (Finite 42)) = Inr (Some [str ''3000''])"
proof -
  define h where
    "h = execHost (str ''darwin'') \<lparr> exec_error = None, stdout = lsofOutput, stderr = [] \<rparr>"
  define r where "r = \<lparr> exec_error = None, stdout = lsofOutput, stderr = [] \<rparr>"
  have "platform h = str ''darwin''"
    and "r = exec h (darwinCommand (numberToString (inexactToString h) (Finite (of_int 42))))"
    and "exec_error r = None" and "stdout r = lsofOutput"
    by (simp_all add: h_def r_def execHost_def)
  with darwin_token_scanning [of h 42 r] obtain ports where
    "fst (findPortByPid h (Finite (of_int 42))) = Inr (if ports = [] then None else Some ports)"
    "set ports = set (spec_darwinPorts lsofOutput)" "distinct ports"
    by auto
  moreover from this have "ports = [str ''3000'']"
    by (simp add: lsofOutput_ports distinct_one)
  ultimately show ?thesis
    by (simp add: h_def)
qed


subsection \<open>The range of a port\<close>













lemma lsofHost_result:
  "fst (findPortByPid
         (execHost (str ''darwin'') \<lparr> exec_error = None, stdout = lsofOutput, stderr = [] \<rparr>)
         (Finite 42)) = Inr (Some [str ''3000''])"
proof -
  from darwinCallback_ports [of "\<lparr> exec_error = None, stdout = lsofOutput, stderr = [] \<rparr>"]
  obtain ports where
    "darwinCallback \<lparr> exec_error = None, stdout = lsofOutput, stderr = [] \<rparr>
       = Inr (if ports = [] then None else Some ports)"
    "set ports = set (spec_darwinPorts lsofOutput)" "distinct ports"
    by auto
  moreover from this have "ports = [str ''3000'']"
    by (simp add: lsofOutput_ports distinct_one)
  ultimately show ?thesis
    using findPortByPid_darwin [of "execHost (str ''darwin'')
        \<lparr> exec_error = None, stdout = lsofOutput, stderr = [] \<rparr>" 42]
    by (simp add: execHost_def)
qed

lemma powershellHost_result:
  "fst (findPortByPid
         (execHost (str ''win32'') \<lparr> exec_error = None, stdout = powershellOutput, stderr = [] \<rparr>)
         (Finite 4321)) = Inr (Some [str ''443'', str ''443''])"
  using findPortByPid_win32 [of "execHost (str ''win32'')
      \<lparr> exec_error = None, stdout = powershellOutput, stderr = [] \<rparr>" 4321]
  by (simp add: execHost_def win32Callback_def powershellOutput_def trim_def newline_def
      isWhiteSpace_fast str_def)








subsection \<open>Duplicates\<close>

lemma darwinCallback_distinct: "darwinCallback r = Inr (Some ports) \<Longrightarrow> distinct ports"
proof -
  assume r: "darwinCallback r = Inr (Some ports)"
  then have "exec_error r = None"
    by (auto simp: darwinCallback_def split: option.splits)
  from darwinCallback_ports [OF this] r show ?thesis
    by (auto split: if_splits)
qed

lemma linuxBranch_distinct: "fst (linuxBranch h pid) = Inr (Some ports) \<Longrightarrow> distinct ports"
  by (auto simp: linuxBranch_def Let_def newSet_distinct split: prod.splits sum.splits if_splits)

lemma findPortByPid_distinct:
  assumes "platform h \<noteq> str ''win32''" and "fst (findPortByPid h pid) = Inr (Some ports)"
  shows "distinct ports"
proof -
  consider (mac) "platform h = str ''darwin''"
    | (lin) "platform h \<noteq> str ''darwin''" "platform h = str ''linux''"
    | (other) "platform h \<noteq> str ''darwin''" "platform h \<noteq> str ''linux''"
    by blast
  then show ?thesis
  proof cases
    case mac
    with assms show ?thesis
      by (auto simp: findPortByPid_def Let_def split: if_splits dest: darwinCallback_distinct)
  next
    case lin
    with assms have "fst (linuxBranch h pid) = Inr (Some ports)"
      by (auto simp: findPortByPid_def Let_def split: if_splits prod.splits sum.splits error.splits)
    then show ?thesis by (rule linuxBranch_distinct)
  next
    case other
    with assms show ?thesis
      by (auto simp: findPortByPid_def Let_def split: if_splits)
  qed
qed

text \<open>
  C5. The macOS and the Linux path return no duplicates (the lemma above); the
  Windows path returns the lines of the output as they are, and a server on port 443
  with one connection open gets its port twice.
\<close>

theorem win32_duplicates:
  "fst (findPortByPid
         (execHost (str ''win32'') \<lparr> exec_error = None, stdout = powershellOutput, stderr = [] \<rparr>)
         (Finite 4321)) = Inr (Some [str ''443'', str ''443''])
   \<and> \<not> distinct [str ''443'', str ''443'']"
  using powershellHost_result by simp

text \<open>The same call, for what it shows: a successful result with a duplicate.\<close>

theorem win32_duplicates_witness:
  "\<exists>ports. fst (findPortByPid
         (execHost (str ''win32'') \<lparr> exec_error = None, stdout = powershellOutput, stderr = [] \<rparr>)
         (Finite 4321)) = Inr (Some ports) \<and> \<not> distinct ports"
  using win32_duplicates by blast


subsection \<open>Errors of the Linux path\<close>

lemma collectInodes_skip:
  "collectInodes h fdDir files inodeSet =
     collectInodes h fdDir
       (filter (\<lambda>file. \<not> isl (readlink h (fdDir @ str ''/'' @ file))) files) inodeSet"
  by (induction files arbitrary: inodeSet) (auto split: sum.splits)

lemma findPortByPid_linux_ok:
  assumes "platform h = str ''linux''" and "0 < n"
    and "fst (getSocketInodesForPid h (Finite (of_int n))) = Inr inodes"
  shows "\<exists>result. fst (findPortByPid h (Finite (of_int n))) = Inr result"
  using findPortByPid_linux [OF assms(1,2)] linuxBranch_ports [OF assms(3)] by simp

text \<open>
  C6. On the Linux path, when the descriptor directory of the process cannot be listed,
  the call fails with the error of the listing in its message. When it can be listed,
  the call does not fail, and the sockets collected are those collected from the
  descriptors whose link can be read, as if the others were not listed.
\<close>

theorem linux_error_split:
  "platform h = str ''linux'' \<longrightarrow> 0 < n \<longrightarrow>
   fdDir = str ''/proc/'' @ numberToString (inexactToString h) (Finite (of_int n)) @ str ''/fd'' \<longrightarrow>
     (readdir h fdDir = Inl message \<longrightarrow>
        fst (findPortByPid h (Finite (of_int n))) =
          Inl (Error (str ''Error reading Linux network info: ''
                      @ str ''Unable to read fd directory: '' @ message)))
     \<and> (readdir h fdDir = Inr files \<longrightarrow>
          fst (getSocketInodesForPid h (Finite (of_int n))) =
            Inr (collectInodes h fdDir
                   (filter (\<lambda>file. \<not> isl (readlink h (fdDir @ str ''/'' @ file))) files) [])
          \<and> (\<exists>result. fst (findPortByPid h (Finite (of_int n))) = Inr result))"
proof (intro impI conjI)
  assume linux: "platform h = str ''linux''" and n: "0 < n"
    and fdDir: "fdDir = str ''/proc/'' @ numberToString (inexactToString h) (Finite (of_int n)) @ str ''/fd''"
  {
    assume "readdir h fdDir = Inl message"
    then have "fst (linuxBranch h (Finite (of_int n))) =
        Inl (Error (str ''Unable to read fd directory: '' @ message))"
      using fdDir by (simp add: linuxBranch_def getSocketInodesForPid_def Let_def)
    then show "fst (findPortByPid h (Finite (of_int n))) =
          Inl (Error (str ''Error reading Linux network info: ''
                      @ str ''Unable to read fd directory: '' @ message))"
      using findPortByPid_linux [OF linux n] by simp
  }
  {
    assume "readdir h fdDir = Inr files"
    then have inodes: "fst (getSocketInodesForPid h (Finite (of_int n))) =
        Inr (collectInodes h fdDir files [])"
      using fdDir by (simp add: getSocketInodesForPid_def Let_def)
    then show "fst (getSocketInodesForPid h (Finite (of_int n))) =
            Inr (collectInodes h fdDir
                   (filter (\<lambda>file. \<not> isl (readlink h (fdDir @ str ''/'' @ file))) files) [])"
      using collectInodes_skip [of h fdDir files "[]"] by simp
    from findPortByPid_linux_ok [OF linux n inodes]
    show "\<exists>result. fst (findPortByPid h (Finite (of_int n))) = Inr result" .
  }
qed

lemma pidText_42: "numberToString inexact (Finite 42) = str ''42''"
  by (simp add: numberToString_def intToString_def digits10.simps digitChar_def str_def)

lemma pidText_7: "numberToString inexact (Finite 7) = str ''7''"
  by (simp add: numberToString_def intToString_def digits10.simps digitChar_def str_def)

text \<open>
  C6 on the first example host: process 7 does not exist; process 42 has a descriptor,
  4, whose link cannot be read.
\<close>

theorem linux_error_split_witness:
  "fst (findPortByPid hostTwoPorts (Finite 7)) =
     Inl (Error (str ''Error reading Linux network info: ''
                 @ str ''Unable to read fd directory: ''
                 @ str ''ENOENT: no such file or directory''))
   \<and> fst (getSocketInodesForPid hostTwoPorts (Finite 42)) =
       Inr (collectInodes hostTwoPorts (str ''/proc/42/fd'') [str ''0'', str ''3'', str ''5''] [])
   \<and> (\<exists>result. fst (findPortByPid hostTwoPorts (Finite 42)) = Inr result)"
proof -
  have linux: "platform hostTwoPorts = str ''linux''"
    by (simp add: hostTwoPorts_def linuxHost_platform)
  have dir7: "str ''/proc/7/fd'' = str ''/proc/'' @ numberToString (inexactToString hostTwoPorts) (Finite (of_int 7)) @ str ''/fd''"
    by (simp add: pidText_7) (simp add: str_def)
  have dir42: "str ''/proc/42/fd'' = str ''/proc/'' @ numberToString (inexactToString hostTwoPorts) (Finite (of_int 42)) @ str ''/fd''"
    by (simp add: pidText_42) (simp add: str_def)
  have read7: "readdir hostTwoPorts (str ''/proc/7/fd'') = Inl (str ''ENOENT: no such file or directory'')"
    by (simp add: hostTwoPorts_def linuxHost_def str_def)
  have read42: "readdir hostTwoPorts (str ''/proc/42/fd'') = Inr [str ''0'', str ''3'', str ''4'', str ''5'']"
    by (simp add: hostTwoPorts_def linuxHost_def descriptors_def)
  have links: "filter (\<lambda>file. \<not> isl (readlink hostTwoPorts (str ''/proc/42/fd'' @ str ''/'' @ file)))
      [str ''0'', str ''3'', str ''4'', str ''5''] = [str ''0'', str ''3'', str ''5'']"
    by (simp add: hostTwoPorts_def linuxHost_def descriptors_def str_def)
  from linux_error_split [of hostTwoPorts 7 "str ''/proc/7/fd''"
      "str ''ENOENT: no such file or directory''"] linux dir7 read7
  have first: "fst (findPortByPid hostTwoPorts (Finite 7)) =
     Inl (Error (str ''Error reading Linux network info: ''
                 @ str ''Unable to read fd directory: ''
                 @ str ''ENOENT: no such file or directory''))"
    by simp
  from linux_error_split [of hostTwoPorts 42 "str ''/proc/42/fd''" _
      "[str ''0'', str ''3'', str ''4'', str ''5'']"] linux dir42 read42
  have second: "fst (getSocketInodesForPid hostTwoPorts (Finite 42)) =
       Inr (collectInodes hostTwoPorts (str ''/proc/42/fd'') [str ''0'', str ''3'', str ''5''] [])
     \<and> (\<exists>result. fst (findPortByPid hostTwoPorts (Finite 42)) = Inr result)"
    unfolding links by simp
  from first second show ?thesis by simp
qed

subsection \<open>A table that cannot be read\<close>

text \<open>
  C7. A connection table that cannot be read gives no ports and no error, whatever the
  set of sockets; on the Linux path the result is then what the other table gives.
\<close>

theorem missing_table:
  "(readFile h filePath = Inl e \<longrightarrow>
      getPortsFromProcNet h filePath inodes = ([], [ReadFile filePath]))
   \<and> (platform h = str ''linux'' \<longrightarrow> 0 < n \<longrightarrow>
        fst (getSocketInodesForPid h (Finite (of_int n))) = Inr inodes \<longrightarrow>
        (readFile h (str ''/proc/net/tcp6'') = Inl e \<longrightarrow>
           fst (findPortByPid h (Finite (of_int n))) =
             Inr (let tcpPorts = fst (getPortsFromProcNet h (str ''/proc/net/tcp'') inodes)
                  in if tcpPorts = [] then None else Some tcpPorts))
        \<and> (readFile h (str ''/proc/net/tcp'') = Inl e \<longrightarrow>
             fst (findPortByPid h (Finite (of_int n))) =
               Inr (let tcp6Ports = fst (getPortsFromProcNet h (str ''/proc/net/tcp6'') inodes)
                    in if tcp6Ports = [] then None else Some tcp6Ports)))"
proof (intro conjI impI)
  assume "readFile h filePath = Inl e"
  then show "getPortsFromProcNet h filePath inodes = ([], [ReadFile filePath])"
    by (simp add: getPortsFromProcNet_def)
next
  assume linux: "platform h = str ''linux''" and n: "0 < n"
    and inodes: "fst (getSocketInodesForPid h (Finite (of_int n))) = Inr inodes"
    and missing: "readFile h (str ''/proc/net/tcp6'') = Inl e"
  have "fst (getPortsFromProcNet h (str ''/proc/net/tcp6'') inodes) = []"
    using missing by (simp add: getPortsFromProcNet_def)
  then show "fst (findPortByPid h (Finite (of_int n))) =
             Inr (let tcpPorts = fst (getPortsFromProcNet h (str ''/proc/net/tcp'') inodes)
                  in if tcpPorts = [] then None else Some tcpPorts)"
    using findPortByPid_linux [OF linux n] linuxBranch_ports [OF inodes]
    by (simp add: Let_def newSet_id getPortsFromProcNet_distinct)
next
  assume linux: "platform h = str ''linux''" and n: "0 < n"
    and inodes: "fst (getSocketInodesForPid h (Finite (of_int n))) = Inr inodes"
    and missing: "readFile h (str ''/proc/net/tcp'') = Inl e"
  have "fst (getPortsFromProcNet h (str ''/proc/net/tcp'') inodes) = []"
    using missing by (simp add: getPortsFromProcNet_def)
  then show "fst (findPortByPid h (Finite (of_int n))) =
               Inr (let tcp6Ports = fst (getPortsFromProcNet h (str ''/proc/net/tcp6'') inodes)
                    in if tcp6Ports = [] then None else Some tcp6Ports)"
    using findPortByPid_linux [OF linux n] linuxBranch_ports [OF inodes]
    by (simp add: Let_def newSet_id getPortsFromProcNet_distinct)
qed

lemma hostIPv6Only_tcp6Ports:
  "fst (getPortsFromProcNet hostIPv6Only (str ''/proc/net/tcp6'') [str ''12345'', str ''12346''])
     = [str ''3000'']"
proof -
  have "readFile hostIPv6Only (str ''/proc/net/tcp6'') = Inr (unlines [tableHeader, row3000])"
    by (simp add: hostIPv6Only_def linuxHost_def str_def)
  then show ?thesis
    by (simp add: getPortsFromProcNet_unlines rows_one_line procNetLine_eq trim_Nil splitWs_Nil
        row3000_fields eval_decode)
qed

text \<open>
  C7 on the server host, which has no IPv6 table, and on the host that has no IPv4
  table.
\<close>

theorem missing_table_witness:
  "getPortsFromProcNet hostServer (str ''/proc/net/tcp6'') [str ''12345'', str ''12346'']
     = ([], [ReadFile (str ''/proc/net/tcp6'')])
   \<and> fst (findPortByPid hostServer (Finite 42)) = Inr (Some [str ''8080''])
   \<and> fst (findPortByPid hostIPv6Only (Finite 42)) = Inr (Some [str ''3000''])"
proof -
  have linux: "platform hostServer = str ''linux''" "platform hostIPv6Only = str ''linux''"
    by (simp_all add: hostServer_def hostIPv6Only_def linuxHost_platform)
  have inodes: "fst (getSocketInodesForPid hostServer (Finite (of_int 42)))
                  = Inr [str ''12345'', str ''12346'']"
    "fst (getSocketInodesForPid hostIPv6Only (Finite (of_int 42)))
                  = Inr [str ''12345'', str ''12346'']"
    unfolding hostServer_def hostIPv6Only_def using linuxHost_inodes by simp_all
  have missing: "readFile hostServer (str ''/proc/net/tcp6'') = Inl (str ''ENOENT: no such file or directory'')"
    by (simp add: hostServer_def linuxHost_def str_def)
  have missing4: "readFile hostIPv6Only (str ''/proc/net/tcp'') = Inl (str ''ENOENT: no such file or directory'')"
    by (simp add: hostIPv6Only_def linuxHost_def)
  from missing_table [of hostServer "str ''/proc/net/tcp6''" "str ''ENOENT: no such file or directory''"
      "[str ''12345'', str ''12346'']" 42] linux inodes missing
  have "getPortsFromProcNet hostServer (str ''/proc/net/tcp6'') [str ''12345'', str ''12346'']
     = ([], [ReadFile (str ''/proc/net/tcp6'')])
   \<and> fst (findPortByPid hostServer (Finite 42)) = Inr (Some [str ''8080''])"
    by (simp add: hostServer_tcpPorts)
  moreover
  from missing_table [of hostIPv6Only "str ''/proc/net/tcp''" "str ''ENOENT: no such file or directory''"
      "[str ''12345'', str ''12346'']" 42] linux inodes missing4
  have "fst (findPortByPid hostIPv6Only (Finite 42)) = Inr (Some [str ''3000''])"
    by (simp add: hostIPv6Only_tcp6Ports)
  ultimately show ?thesis by simp
qed

subsection \<open>A command that fails\<close>

text \<open>
  C8. When the spawned command ends with an error, the macOS path returns the empty
  marker, and the Windows path fails with an error whose message is the command's
  error output, or the message of the error when that output is empty.
\<close>

theorem exec_failure_policy:
  "(platform h = str ''darwin'' \<longrightarrow> 0 < n \<longrightarrow>
      r = exec h (darwinCommand (numberToString (inexactToString h) (Finite (of_int n)))) \<longrightarrow>
      exec_error r = Some message \<longrightarrow>
      fst (findPortByPid h (Finite (of_int n))) = Inr None)
   \<and> (platform h = str ''win32'' \<longrightarrow> 0 < n \<longrightarrow>
        r = exec h (win32Command (numberToString (inexactToString h) (Finite (of_int n)))) \<longrightarrow>
        exec_error r = Some message \<longrightarrow>
        fst (findPortByPid h (Finite (of_int n))) =
          Inl (Error (if stderr r \<noteq> [] then stderr r else message)))"
  by (simp add: findPortByPid_darwin findPortByPid_win32 darwinCallback_def win32Callback_def)

text \<open>
  C8 on a macOS host where grep finds no line, and on a Windows host where PowerShell
  cannot be started.
\<close>

theorem exec_failure_policy_witness:
  "fst (findPortByPid
         (execHost (str ''darwin'')
            \<lparr> exec_error = Some (str ''Command failed: lsof -i -P -n | grep -w 42''),
              stdout = [], stderr = [] \<rparr>)
         (Finite 42)) = Inr None
   \<and> fst (findPortByPid
           (execHost (str ''win32'')
              \<lparr> exec_error = Some (str ''Command failed: powershell''),
                stdout = [], stderr = str ''powershell is not recognized as a command'' \<rparr>)
           (Finite 42)) = Inl (Error (str ''powershell is not recognized as a command''))"
proof -
  define rd where "rd = \<lparr> exec_error = Some (str ''Command failed: lsof -i -P -n | grep -w 42''),
              stdout = [], stderr = [] \<rparr>"
  define rw where "rw = \<lparr> exec_error = Some (str ''Command failed: powershell''),
                stdout = [], stderr = str ''powershell is not recognized as a command'' \<rparr>"
  have "fst (findPortByPid (execHost (str ''darwin'') rd) (Finite (of_int 42))) = Inr None"
    using exec_failure_policy [of "execHost (str ''darwin'') rd" 42 rd
        "str ''Command failed: lsof -i -P -n | grep -w 42''"]
    by (simp add: execHost_def rd_def)
  moreover have "fst (findPortByPid (execHost (str ''win32'') rw) (Finite (of_int 42))) =
      Inl (Error (str ''powershell is not recognized as a command''))"
    using exec_failure_policy [of "execHost (str ''win32'') rw" 42 rw
        "str ''Command failed: powershell''"]
    by (simp add: execHost_def rw_def) (simp add: str_def)
  ultimately show ?thesis
    by (simp add: rd_def rw_def)
qed

subsection \<open>The argument and the shape of the result\<close>

text \<open>
  C9. A pid that is not a positive integer (zero, negative, a fraction, infinite or
  \<open>NaN\<close>) makes the call fail with \<open>Invalid PID\<close> on every host, and no call to the
  host is made.
\<close>

theorem invalid_pid:
  assumes "\<And>n::int. 0 < n \<Longrightarrow> pid \<noteq> Finite (of_int n)"
  shows "findPortByPid h pid = (Inl (Error (str ''Invalid PID'')), [])"
proof (cases "\<not> isInteger pid \<or> leZero pid")
  case True
  then show ?thesis by (simp add: findPortByPid_def)
next
  case False
  then obtain q where q: "pid = Finite q" "q = of_int \<lfloor>q\<rfloor>" "0 < q"
    by (auto simp: isInteger_def leZero_def split: number.splits)
  then have "0 < \<lfloor>q\<rfloor>" by linarith
  with assms [of "\<lfloor>q\<rfloor>"] q show ?thesis by simp
qed

lemma half_not_int: "Finite (1 / 2) \<noteq> Finite (of_int n)"
proof
  assume "Finite (1 / 2) = Finite (of_int n)"
  then have "rat_of_int (2 * n) = rat_of_int 1" by simp
  then have "2 * n = 1" by (simp only: of_int_eq_iff)
  then show False by presburger
qed

text \<open>C9 on a Linux and on a Windows host, for the pids 0, -3, 1/2 and \<open>NaN\<close>.\<close>

theorem invalid_pid_witness:
  "findPortByPid hostTwoPorts (Finite 0) = (Inl (Error (str ''Invalid PID'')), [])
   \<and> findPortByPid hostTwoPorts (Finite (- 3)) = (Inl (Error (str ''Invalid PID'')), [])
   \<and> findPortByPid
        (execHost (str ''win32'') \<lparr> exec_error = None, stdout = powershellOutput, stderr = [] \<rparr>)
        (Finite (1 / 2)) = (Inl (Error (str ''Invalid PID'')), [])
   \<and> findPortByPid hostServer NaN = (Inl (Error (str ''Invalid PID'')), [])"
proof -
  have "0 < n \<Longrightarrow> Finite 0 \<noteq> Finite (of_int n)" for n :: int
    by simp
  moreover have "0 < n \<Longrightarrow> Finite (- 3) \<noteq> Finite (of_int n)" for n :: int
  proof
    assume "0 < n" and "Finite (- 3) = Finite (rat_of_int n)"
    then have "rat_of_int (- 3) = rat_of_int n" by simp
    then have "- 3 = n" by (simp only: of_int_eq_iff)
    with \<open>0 < n\<close> show False by simp
  qed
  ultimately show ?thesis
    using invalid_pid [of "Finite 0" hostTwoPorts] invalid_pid [of "Finite (- 3)" hostTwoPorts]
      invalid_pid [of "Finite (1 / 2)" "execHost (str ''win32'')
        \<lparr> exec_error = None, stdout = powershellOutput, stderr = [] \<rparr>"]
      invalid_pid [of NaN hostServer] half_not_int
    by simp
qed

text \<open>
  C10. On every host, a call that succeeds returns the empty marker or a list that is
  not empty.
\<close>

theorem return_shape:
  "fst (findPortByPid h pid) = Inr (Some ports) \<Longrightarrow> ports \<noteq> []"
proof -
  assume r: "fst (findPortByPid h pid) = Inr (Some ports)"
  consider (win) "platform h = str ''win32''"
    | (mac) "platform h \<noteq> str ''win32''" "platform h = str ''darwin''"
    | (lin) "platform h \<noteq> str ''win32''" "platform h \<noteq> str ''darwin''" "platform h = str ''linux''"
    | (other) "platform h \<noteq> str ''win32''" "platform h \<noteq> str ''darwin''" "platform h \<noteq> str ''linux''"
    by blast
  then show ?thesis
  proof cases
    case win
    with r show ?thesis
      by (auto simp: findPortByPid_def Let_def win32Callback_def split: if_splits option.splits)
  next
    case mac
    with r show ?thesis
      by (auto simp: findPortByPid_def Let_def darwinCallback_def split: if_splits option.splits)
  next
    case lin
    with r have "fst (linuxBranch h pid) = Inr (Some ports)"
      by (auto simp: findPortByPid_def Let_def split: if_splits prod.splits sum.splits error.splits)
    then show ?thesis
      by (auto simp: linuxBranch_def Let_def split: prod.splits sum.splits if_splits)
  next
    case other
    with r show ?thesis
      by (auto simp: findPortByPid_def Let_def split: if_splits)
  qed
qed

text \<open>C10 on the three paths.\<close>

theorem return_shape_witness:
  "(fst (findPortByPid hostServer (Finite 42)) = Inr (Some [str ''8080''])
      \<and> [str ''8080''] \<noteq> ([] :: jsstring list))
   \<and> (fst (findPortByPid
          (execHost (str ''darwin'') \<lparr> exec_error = None, stdout = lsofOutput, stderr = [] \<rparr>)
          (Finite 42)) = Inr (Some [str ''3000''])
        \<and> [str ''3000''] \<noteq> ([] :: jsstring list))
   \<and> (fst (findPortByPid
          (execHost (str ''win32'') \<lparr> exec_error = None, stdout = powershellOutput, stderr = [] \<rparr>)
          (Finite 4321)) = Inr (Some [str ''443'', str ''443''])
        \<and> [str ''443'', str ''443''] \<noteq> ([] :: jsstring list))"
  using return_shape [OF hostServer_result] return_shape [OF lsofHost_result]
    return_shape [OF powershellHost_result]
    hostServer_result lsofHost_result powershellHost_result
  by simp

end
